theory Spec2Isabelle
  imports Complex_Main "HOL-Library.Log_Nat"
begin

section \<open>JavaScript Numbers\<close>

text \<open>
  A Number is an IEEE 754 double. A finite double is modelled by its exact rational
  value; the two infinities and NaN are constructors of their own. Negative zero is
  not told apart from zero: both are \<open>Fin 0\<close>. The two zeros are equal under
  \<open>===\<close> and print alike; they differ only as a divisor, and a zero divisor is
  taken to be the positive one.
\<close>

datatype jsnum = Fin rat | PInf | NInf | NaN

definition pow2 :: "int \<Rightarrow> rat" where
  "pow2 e = (if 0 \<le> e then 2 ^ nat e else 1 / 2 ^ nat (- e))"

definition pow10 :: "int \<Rightarrow> rat" where
  "pow10 e = (if 0 \<le> e then 10 ^ nat e else 1 / 10 ^ nat (- e))"

text \<open>\<open>ilog2 x\<close> is the binary exponent of a positive \<open>x\<close>: \<open>2 ^ e \<le> x < 2 ^ (e + 1)\<close>;
  \<open>ilog10\<close> is the decimal one.\<close>

definition ilog2 :: "rat \<Rightarrow> int" where
  "ilog2 x = (if 1 \<le> x then bitlen \<lfloor>x\<rfloor> - 1 else - bitlen (\<lceil>1 / x\<rceil> - 1))"

definition ilog10 :: "rat \<Rightarrow> int" where
  "ilog10 x =
     (if 1 \<le> x then int (floorlog 10 (nat \<lfloor>x\<rfloor>)) - 1
      else - int (floorlog 10 (nat (\<lceil>1 / x\<rceil> - 1))))"

definition round_half_even :: "rat \<Rightarrow> int" where
  "round_half_even x =
     (let f = \<lfloor>x\<rfloor>; d = x - of_int f
      in if d < 1 / 2 then f else if 1 / 2 < d then f + 1 else if even f then f else f + 1)"

text \<open>
  \<open>fl x\<close> is the Number value for the real \<open>x\<close>: round to nearest, ties to even, with
  53 bits of precision above \<open>2 ^ - 1022\<close>, the fixed spacing \<open>2 ^ - 1074\<close> below
  (subnormals), and an infinity from \<open>2 ^ 1024\<close> on.
\<close>

definition fl :: "rat \<Rightarrow> jsnum" where
  "fl x =
     (if x = 0 then Fin 0
      else let e = max (ilog2 \<bar>x\<bar> - 52) (- 1074);
               y = of_int (round_half_even (x / pow2 e)) * pow2 e
           in if 2 ^ 1024 \<le> y then PInf else if y \<le> - (2 ^ 1024) then NInf else Fin y)"

definition js_neg :: "jsnum \<Rightarrow> jsnum" where
  "js_neg a = (case a of Fin x \<Rightarrow> Fin (- x) | PInf \<Rightarrow> NInf | NInf \<Rightarrow> PInf | NaN \<Rightarrow> NaN)"

fun js_add :: "jsnum \<Rightarrow> jsnum \<Rightarrow> jsnum" where
  "js_add (Fin x) (Fin y) = fl (x + y)"
| "js_add NaN b = NaN"
| "js_add a NaN = NaN"
| "js_add PInf NInf = NaN"
| "js_add NInf PInf = NaN"
| "js_add PInf b = PInf"
| "js_add NInf b = NInf"
| "js_add a PInf = PInf"
| "js_add a NInf = NInf"

definition js_sub :: "jsnum \<Rightarrow> jsnum \<Rightarrow> jsnum" where
  "js_sub a b = js_add a (js_neg b)"

definition js_sign :: "jsnum \<Rightarrow> rat" where
  "js_sign a = (case a of Fin x \<Rightarrow> sgn x | PInf \<Rightarrow> 1 | NInf \<Rightarrow> - 1 | NaN \<Rightarrow> 0)"

fun js_mul :: "jsnum \<Rightarrow> jsnum \<Rightarrow> jsnum" where
  "js_mul (Fin x) (Fin y) = fl (x * y)"
| "js_mul NaN b = NaN"
| "js_mul a NaN = NaN"
| "js_mul a b =
     (if js_sign a * js_sign b = 0 then NaN
      else if 0 < js_sign a * js_sign b then PInf else NInf)"

fun js_div :: "jsnum \<Rightarrow> jsnum \<Rightarrow> jsnum" where
  "js_div (Fin x) (Fin y) =
     (if y = 0 then (if x = 0 then NaN else if 0 < x then PInf else NInf) else fl (x / y))"
| "js_div NaN b = NaN"
| "js_div a NaN = NaN"
| "js_div (Fin x) b = Fin 0"
| "js_div PInf (Fin y) = (if 0 \<le> y then PInf else NInf)"
| "js_div NInf (Fin y) = (if 0 \<le> y then NInf else PInf)"
| "js_div a b = NaN"

fun js_lt :: "jsnum \<Rightarrow> jsnum \<Rightarrow> bool" where
  "js_lt NaN b = False"
| "js_lt a NaN = False"
| "js_lt (Fin x) (Fin y) = (x < y)"
| "js_lt NInf NInf = False"
| "js_lt NInf b = True"
| "js_lt a NInf = False"
| "js_lt PInf b = False"
| "js_lt a PInf = True"

text \<open>\<open>a === b\<close> on Numbers: NaN equals nothing, itself included.\<close>

definition js_seq :: "jsnum \<Rightarrow> jsnum \<Rightarrow> bool" where
  "js_seq a b = (a \<noteq> NaN \<and> a = b)"

definition isNaN :: "jsnum \<Rightarrow> bool" where
  "isNaN a = (a = NaN)"

definition Math_max :: "jsnum \<Rightarrow> jsnum \<Rightarrow> jsnum" where
  "Math_max a b = (if a = NaN \<or> b = NaN then NaN else if js_lt a b then b else a)"

definition Math_min :: "jsnum \<Rightarrow> jsnum \<Rightarrow> jsnum" where
  "Math_min a b = (if a = NaN \<or> b = NaN then NaN else if js_lt b a then b else a)"

text \<open>\<open>Math.round\<close>: the nearest integer, a tie going up.\<close>

definition Math_round :: "jsnum \<Rightarrow> jsnum" where
  "Math_round a = (case a of Fin x \<Rightarrow> Fin (of_int \<lfloor>x + 1 / 2\<rfloor>) | _ \<Rightarrow> a)"

text \<open>
  \<open>parseFloat(x.toFixed(5))\<close>. \<open>toFixed\<close> takes the integer \<open>n\<close> for which
  \<open>n / 10 ^ 5\<close> is nearest to the magnitude of \<open>x\<close> (the larger \<open>n\<close> on a tie) and
  prints it with five decimals; \<open>parseFloat\<close> reads the decimal back as the nearest
  double. From \<open>10 ^ 21\<close> on, and for NaN and the infinities, \<open>toFixed\<close> prints
  the Number as \<open>ToString\<close> does and \<open>parseFloat\<close> reads the same Number back.
\<close>

definition parseFloat_toFixed5 :: "jsnum \<Rightarrow> jsnum" where
  "parseFloat_toFixed5 a =
     (case a of
        Fin x \<Rightarrow>
          if 10 ^ 21 \<le> \<bar>x\<bar> then Fin x
          else fl (sgn x * of_int \<lfloor>\<bar>x\<bar> * 10 ^ 5 + 1 / 2\<rfloor> / 10 ^ 5)
      | _ \<Rightarrow> a)"

section \<open>Numbers and strings\<close>

definition is_digit :: "char \<Rightarrow> bool" where
  "is_digit c = (c \<in> set ''0123456789'')"

text \<open>The class \<open>\s\<close> on the code units below 256.\<close>

definition is_space :: "char \<Rightarrow> bool" where
  "is_space c = (c \<in> set [CHR 0x09, CHR 0x0A, CHR 0x0B, CHR 0x0C, CHR 0x0D, CHR 0x20, CHR 0xA0])"

definition digit_value :: "char \<Rightarrow> nat" where
  "digit_value c = of_char c - 48"

definition digits_value :: "string \<Rightarrow> nat" where
  "digits_value ds = foldl (\<lambda>n c. 10 * n + digit_value c) 0 ds"

fun digits :: "nat \<Rightarrow> string" where
  "digits n =
     (if n < 10 then [''0123456789'' ! n] else digits (n div 10) @ [''0123456789'' ! (n mod 10)])"

declare digits.simps [simp del]

text \<open>
  \<open>parseFloat\<close> on the strings this code hands it: an optional sign and decimal
  digits (what the groups \<open>(\-?[\d]+)\<close> hold), read as the nearest double, with
  anything after the digits ignored; a string with no leading digits, such as
  \<open>undefined\<close>, is NaN. Fractions and exponents are not read: no caller passes one.
\<close>

definition parseFloat :: "string \<Rightarrow> jsnum" where
  "parseFloat s =
     (let (negative, r) =
            (case s of
               [] \<Rightarrow> (False, s)
             | c # cs \<Rightarrow>
                 if c = CHR ''-'' then (True, cs) else if c = CHR ''+'' then (False, cs)
                 else (False, s));
          ds = takeWhile is_digit r
      in if ds = [] then NaN
         else if negative then js_neg (fl (of_nat (digits_value ds)))
         else fl (of_nat (digits_value ds)))"

text \<open>
  \<open>ToString\<close> of a Number. For a positive finite \<open>x\<close> it takes integers \<open>n\<close>,
  \<open>k\<close> and \<open>s\<close> with \<open>k\<close> as small as possible such that \<open>s\<close> has \<open>k\<close> digits
  and \<open>s * 10 ^ (n - k)\<close> is a decimal whose Number value is \<open>x\<close>, the nearest to
  \<open>x\<close> when there are several; 17 digits always suffice for a double.
\<close>

definition digit_candidates :: "rat \<Rightarrow> nat \<Rightarrow> (int \<times> int) list" where
  "digit_candidates x k =
     (let n = ilog10 x + 1; lo = \<lfloor>x / pow10 (n - int k)\<rfloor>
      in filter (\<lambda>(s, n'). fl (of_int s * pow10 (n' - int k)) = Fin x)
           [(lo, n), if lo + 1 = 10 ^ k then (10 ^ (k - 1), n + 1) else (lo + 1, n)])"

fun shortest_digits :: "rat \<Rightarrow> nat list \<Rightarrow> (int \<times> nat \<times> int) option" where
  "shortest_digits x [] = None"
| "shortest_digits x (k # ks) =
     (case digit_candidates x k of
        [] \<Rightarrow> shortest_digits x ks
      | [(s, n)] \<Rightarrow> Some (s, k, n)
      | (s1, n1) # (s2, n2) # _ \<Rightarrow>
          (let d1 = \<bar>x - of_int s1 * pow10 (n1 - int k)\<bar>;
               d2 = \<bar>x - of_int s2 * pow10 (n2 - int k)\<bar>
           in if d1 < d2 \<or> (d1 = d2 \<and> even s1) then Some (s1, k, n1) else Some (s2, k, n2)))"

definition format_decimal :: "int \<Rightarrow> nat \<Rightarrow> int \<Rightarrow> string" where
  "format_decimal s k n =
     (let ds = digits (nat s)
      in if int k \<le> n \<and> n \<le> 21 then ds @ replicate (nat (n - int k)) CHR ''0''
         else if 0 < n \<and> n \<le> 21 then take (nat n) ds @ ''.'' @ drop (nat n) ds
         else if - 6 < n \<and> n \<le> 0 then ''0.'' @ replicate (nat (- n)) CHR ''0'' @ ds
         else (if k = 1 then ds else take 1 ds @ ''.'' @ drop 1 ds) @ ''e'' @
              (if 0 \<le> n - 1 then ''+'' else ''-'') @ digits (nat \<bar>n - 1\<bar>))"

definition positive_ToString :: "rat \<Rightarrow> string" where
  "positive_ToString x =
     (case shortest_digits x [1, 2, 3, 4, 5, 6, 7, 8, 9, 10, 11, 12, 13, 14, 15, 16, 17] of
        Some (s, k, n) \<Rightarrow> format_decimal s k n
      | None \<Rightarrow> format_decimal \<lfloor>x / pow10 (ilog10 x - 16) + 1 / 2\<rfloor> 17 (ilog10 x + 1))"

definition ToString :: "jsnum \<Rightarrow> string" where
  "ToString a =
     (case a of
        NaN \<Rightarrow> ''NaN''
      | PInf \<Rightarrow> ''Infinity''
      | NInf \<Rightarrow> ''-Infinity''
      | Fin x \<Rightarrow>
          if x = 0 then ''0''
          else if x < 0 then ''-'' @ positive_ToString (- x)
          else positive_ToString x)"

section \<open>The regular expressions of the style utilities\<close>

fun stripPrefix :: "string \<Rightarrow> string \<Rightarrow> string option" where
  "stripPrefix [] s = Some s"
| "stripPrefix (p # ps) [] = None"
| "stripPrefix (p # ps) (c # cs) = (if p = c then stripPrefix ps cs else None)"

text \<open>\<open>(\-?[\d]+)\<close> at the head of a string: the text of the group and the rest.\<close>

definition signed_digits :: "string \<Rightarrow> (string \<times> string) option" where
  "signed_digits s =
     (let (sign, r) =
            (case s of
               [] \<Rightarrow> ('''', s)
             | c # cs \<Rightarrow> if c = CHR ''-'' then (''-'', cs) else ('''', s));
          ds = takeWhile is_digit r
      in if ds = [] then None else Some (sign @ ds, dropWhile is_digit r))"

text \<open>
  \<open>reTranslate = /((^|\s)translate(3d|X)?\()(\-?[\d]+)/\<close>. The body is what follows
  \<open>(^|\s)\<close>: it gives the text up to and including the parenthesis and the text of
  group 4. Greedy choices never need undoing here: what a shorter choice would leave
  cannot start the next piece of the pattern.
\<close>

definition reTranslate_body :: "string \<Rightarrow> (string \<times> string) option" where
  "reTranslate_body s =
     (case stripPrefix ''translate'' s of
        None \<Rightarrow> None
      | Some s1 \<Rightarrow>
          (let (opt, s2) =
                 (case stripPrefix ''3d'' s1 of
                    Some r \<Rightarrow> (''3d'', r)
                  | None \<Rightarrow>
                      (case stripPrefix ''X'' s1 of Some r \<Rightarrow> (''X'', r) | None \<Rightarrow> ('''', s1)))
           in case stripPrefix ''('' s2 of
                None \<Rightarrow> None
              | Some s3 \<Rightarrow>
                  (case signed_digits s3 of
                     None \<Rightarrow> None
                   | Some (num, rest) \<Rightarrow> Some (''translate'' @ opt @ ''('', num))))"

text \<open>
  The leftmost match in the rest of the subject, as \<open>(matches[0], matches[1],
  matches[4])\<close>; the flag says whether the rest is the whole subject, where \<open>^\<close>
  matches.
\<close>

fun reTranslate_exec :: "bool \<Rightarrow> string \<Rightarrow> (string \<times> string \<times> string) option" where
  "reTranslate_exec start [] = None"
| "reTranslate_exec start (c # cs) =
     (case (if start then reTranslate_body (c # cs) else None) of
        Some (f, num) \<Rightarrow> Some (f @ num, f, num)
      | None \<Rightarrow>
          (case (if is_space c then reTranslate_body cs else None) of
             Some (f, num) \<Rightarrow> Some (c # f @ num, c # f, num)
           | None \<Rightarrow> reTranslate_exec False cs))"

text \<open>
  \<open>reSkew = /((^|\s)skew(x|y)?\()\s*(\-?[\d]+)(deg|rad|grad)(,\s*(\-?[\d]+)(deg|rad|grad))?/\<close>.
  A group that took no part in the match is \<open>undefined\<close>: \<open>None\<close>.
\<close>

record skew_groups =
  g0 :: string
  g1 :: string
  g4 :: string
  g5 :: string
  g6 :: "string option"
  g7 :: "string option"
  g8 :: "string option"

definition angle_unit :: "string \<Rightarrow> (string \<times> string) option" where
  "angle_unit s =
     (case stripPrefix ''deg'' s of
        Some r \<Rightarrow> Some (''deg'', r)
      | None \<Rightarrow>
          (case stripPrefix ''rad'' s of
             Some r \<Rightarrow> Some (''rad'', r)
           | None \<Rightarrow> (case stripPrefix ''grad'' s of Some r \<Rightarrow> Some (''grad'', r) | None \<Rightarrow> None)))"

text \<open>\<open>(\-?[\d]+)(deg|rad|grad)\<close> after \<open>\s*\<close>: the white space, the number, the unit
  and the rest.\<close>

definition spaced_angle :: "string \<Rightarrow> (string \<times> string \<times> string \<times> string) option" where
  "spaced_angle s =
     (case signed_digits (dropWhile is_space s) of
        None \<Rightarrow> None
      | Some (num, r) \<Rightarrow>
          (case angle_unit r of
             None \<Rightarrow> None
           | Some (unit, r') \<Rightarrow> Some (takeWhile is_space s, num, unit, r')))"

definition reSkew_body :: "string \<Rightarrow> string \<Rightarrow> skew_groups option" where
  "reSkew_body lead s =
     (case stripPrefix ''skew'' s of
        None \<Rightarrow> None
      | Some s1 \<Rightarrow>
          (let (opt, s2) =
                 (case stripPrefix ''x'' s1 of
                    Some r \<Rightarrow> (''x'', r)
                  | None \<Rightarrow>
                      (case stripPrefix ''y'' s1 of Some r \<Rightarrow> (''y'', r) | None \<Rightarrow> ('''', s1)))
           in case stripPrefix ''('' s2 of
                None \<Rightarrow> None
              | Some s3 \<Rightarrow>
                  (case spaced_angle s3 of
                     None \<Rightarrow> None
                   | Some (sp, num, unit, r) \<Rightarrow>
                       (let f = lead @ ''skew'' @ opt @ ''(''
                        in case (case stripPrefix '','' r of
                                   None \<Rightarrow> None
                                 | Some r2 \<Rightarrow> spaced_angle r2) of
                             None \<Rightarrow>
                               Some \<lparr>g0 = f @ sp @ num @ unit, g1 = f, g4 = num, g5 = unit,
                                     g6 = None, g7 = None, g8 = None\<rparr>
                           | Some (sp2, num2, unit2, r3) \<Rightarrow>
                               Some \<lparr>g0 = f @ sp @ num @ unit @ '','' @ sp2 @ num2 @ unit2,
                                     g1 = f, g4 = num, g5 = unit,
                                     g6 = Some ('','' @ sp2 @ num2 @ unit2),
                                     g7 = Some num2, g8 = Some unit2\<rparr>))))"

fun reSkew_exec :: "bool \<Rightarrow> string \<Rightarrow> skew_groups option" where
  "reSkew_exec start [] = None"
| "reSkew_exec start (c # cs) =
     (case (if start then reSkew_body [] (c # cs) else None) of
        Some m \<Rightarrow> Some m
      | None \<Rightarrow>
          (case (if is_space c then reSkew_body [c] cs else None) of
             Some m \<Rightarrow> Some m
           | None \<Rightarrow> reSkew_exec False cs))"

text \<open>
  \<open>subject.replace(pattern, replacement)\<close> with a string pattern: the first
  occurrence is replaced. The dollar patterns of a replacement are not interpreted: no
  replacement built below holds a dollar sign.
\<close>

fun String_replace :: "string \<Rightarrow> string \<Rightarrow> string \<Rightarrow> string" where
  "String_replace pat rep [] = (if pat = [] then rep else [])"
| "String_replace pat rep (c # cs) =
     (case stripPrefix pat (c # cs) of
        Some r \<Rightarrow> rep @ r
      | None \<Rightarrow> c # String_replace pat rep cs)"

text \<open>\<open>subject.indexOf(pattern) > -1\<close>.\<close>

fun String_includes :: "string \<Rightarrow> string \<Rightarrow> bool" where
  "String_includes pat [] = (pat = [])"
| "String_includes pat (c # cs) = (stripPrefix pat (c # cs) \<noteq> None \<or> String_includes pat cs)"

section \<open>Style descriptors and \<open>ensureDirection\<close>\<close>

text \<open>
  A style descriptor is an object: its own enumerable properties in the order
  \<open>Object.keys\<close> lists them, as an association list with distinct keys. The values are the JavaScript values a
  descriptor holds; they hold no functions.
\<close>

datatype jsval =
    JUndefined
  | JNull
  | JBool bool
  | JNum jsnum
  | JStr string
  | JObj "(string \<times> jsval) list"

type_synonym style = "(string \<times> jsval) list"

text \<open>\<open>object[key]\<close>, read and written, and \<open>Object.keys\<close>.\<close>

definition obj_get :: "style \<Rightarrow> string \<Rightarrow> jsval" where
  "obj_get obj key = (case map_of obj key of None \<Rightarrow> JUndefined | Some v \<Rightarrow> v)"

fun obj_set :: "style \<Rightarrow> string \<Rightarrow> jsval \<Rightarrow> style" where
  "obj_set [] key v = [(key, v)]"
| "obj_set ((k, w) # kvs) key v = (if k = key then (key, v) # kvs else (k, w) # obj_set kvs key v)"

definition Object_keys :: "style \<Rightarrow> string list" where
  "Object_keys obj = map fst obj"

text \<open>The truth value of a JavaScript value, as \<open>!\<close> reads it.\<close>

definition truthy :: "jsval \<Rightarrow> bool" where
  "truthy v =
     (case v of
        JUndefined \<Rightarrow> False
      | JNull \<Rightarrow> False
      | JBool b \<Rightarrow> b
      | JNum n \<Rightarrow> n \<noteq> NaN \<and> n \<noteq> Fin 0
      | JStr s \<Rightarrow> s \<noteq> []
      | JObj obj \<Rightarrow> True)"

text \<open>
  Modelled from the spec: \<open>merge\<close> of \<open>utils/immutability-helper\<close>, which is
  not among the sources. The specification's style merge takes an ordered sequence of
  descriptors and returns one new descriptor in which later entries take precedence key
  by key; here for the two descriptors \<open>ensureDirection\<close> passes.
\<close>

definition merge :: "style \<Rightarrow> style \<Rightarrow> style" where
  "merge base later = foldl (\<lambda>acc (key, v). obj_set acc key v) base later"

datatype error = TypeError

text \<open>What \<open>warning(condition, message)\<close> reports when the condition is false: here
  the one message, that \<open>ensureDirection()\<close> is called on the same style object
  twice. The report goes to the console and nothing is thrown.\<close>

datatype warning = CalledTwice

record theme =
  isRtl :: bool

definition flippedAttributes :: "(string \<times> string) list" where
  "flippedAttributes =
     [(''right'', ''left''),
      (''left'', ''right''),
      (''marginRight'', ''marginLeft''),
      (''marginLeft'', ''marginRight''),
      (''paddingRight'', ''paddingLeft''),
      (''paddingLeft'', ''paddingRight''),
      (''borderRight'', ''borderLeft''),
      (''borderLeft'', ''borderRight'')]"

text \<open>
  The replacement the \<open>reSkew\<close> branch builds:
  \<^verbatim>\<open>matches[1] + (-parseFloat(matches[4])) + matches[5] + matches[6] ? ',' + (-parseFloat(matches[7])) + matches[8] : ''\<close>.
  The conditional operator binds weaker than \<open>+\<close>: the whole concatenation to the
  left of \<open>?\<close> is the condition, and a string is true when it is not empty. An
  \<open>undefined\<close> group concatenates as the text \<open>undefined\<close>.
\<close>

definition group_text :: "string option \<Rightarrow> string" where
  "group_text g = (case g of None \<Rightarrow> ''undefined'' | Some s \<Rightarrow> s)"

definition skew_replacement :: "skew_groups \<Rightarrow> string" where
  "skew_replacement m =
     (if g1 m @ ToString (js_neg (parseFloat (g4 m))) @ g5 m @ group_text (g6 m) \<noteq> []
      then '','' @ ToString (js_neg (parseFloat (group_text (g7 m)))) @ group_text (g8 m)
      else [])"

text \<open>The \<open>transform\<close> case of the switch, on a string value.\<close>

definition flip_transform :: "string \<Rightarrow> string" where
  "flip_transform v =
     (let v1 =
            (case reTranslate_exec True v of
               None \<Rightarrow> v
             | Some (m0, m1, m4) \<Rightarrow>
                 String_replace m0 (m1 @ ToString (js_neg (parseFloat m4))) v)
      in case reSkew_exec True v1 of
           None \<Rightarrow> v1
         | Some m \<Rightarrow> String_replace (g0 m) (skew_replacement m) v1)"

text \<open>The \<open>transformOrigin\<close> case, on a string value.\<close>

definition flip_transformOrigin :: "string \<Rightarrow> string" where
  "flip_transformOrigin v =
     (if String_includes ''right'' v then String_replace ''right'' ''left'' v
      else if String_includes ''left'' v then String_replace ''left'' ''right'' v
      else v)"

text \<open>
  The switch on the attribute. \<open>value.match\<close> and \<open>value.indexOf\<close> are
  methods of strings: on any other value of a descriptor the call throws a TypeError.
\<close>

definition switch_attribute :: "string \<Rightarrow> jsval \<Rightarrow> error + jsval" where
  "switch_attribute attribute v =
     (if attribute = ''float'' \<or> attribute = ''textAlign'' then
        Inr (if v = JStr ''right'' then JStr ''left''
             else if v = JStr ''left'' then JStr ''right'' else v)
      else if attribute = ''direction'' then
        Inr (if v = JStr ''ltr'' then JStr ''rtl''
             else if v = JStr ''rtl'' then JStr ''ltr'' else v)
      else if attribute = ''transform'' then
        (case v of JStr s \<Rightarrow> Inr (JStr (flip_transform s)) | _ \<Rightarrow> Inl TypeError)
      else if attribute = ''transformOrigin'' then
        (case v of JStr s \<Rightarrow> Inr (JStr (flip_transformOrigin s)) | _ \<Rightarrow> Inl TypeError)
      else Inr v)"

text \<open>The body of \<open>Object.keys(style).forEach\<close>, over the keys still to visit; an
  exception ends the loop.\<close>

fun forEach_attribute :: "style \<Rightarrow> string list \<Rightarrow> style \<Rightarrow> error + style" where
  "forEach_attribute style [] newStyle = Inr newStyle"
| "forEach_attribute style (attribute # rest) newStyle =
     (let key = (case map_of flippedAttributes attribute of Some k \<Rightarrow> k | None \<Rightarrow> attribute)
      in case switch_attribute attribute (obj_get style attribute) of
           Inl e \<Rightarrow> Inl e
         | Inr v \<Rightarrow> forEach_attribute style rest (obj_set newStyle key v))"

definition didFlip_tag :: "bool \<Rightarrow> style" where
  "didFlip_tag development = (if development then [(''didFlip'', JStr ''true'')] else [])"

text \<open>
  \<open>ensureDirection(muiTheme, style)\<close>. The first argument of the model says whether
  \<open>process.env.NODE_ENV\<close> differs from \<open>production\<close>; an absent theme is \<open>None\<close>.
  The result is the warnings reported and the descriptor returned or the exception
  thrown.
\<close>

definition ensureDirection :: "bool \<Rightarrow> theme option \<Rightarrow> style \<Rightarrow> warning list \<times> (error + style)" where
  "ensureDirection development muiTheme style0 =
     (let warnings =
            (if development \<and> truthy (obj_get style0 ''didFlip'') then [CalledTwice] else []);
          style = (if development then merge (didFlip_tag development) style0 else style0)
      in if (case muiTheme of None \<Rightarrow> True | Some t \<Rightarrow> \<not> isRtl t) then (warnings, Inr style)
         else (warnings, forEach_attribute style (Object_keys style) []))"

text \<open>The test of the early return, read the other way round: there is a theme and it
  is right-to-left.\<close>

definition is_rtl :: "theme option \<Rightarrow> bool" where
  "is_rtl muiTheme = (case muiTheme of None \<Rightarrow> False | Some t \<Rightarrow> isRtl t)"

text \<open>The key under which the loop stores the value of an attribute.\<close>

definition mirrored_key :: "string \<Rightarrow> string" where
  "mirrored_key attribute =
     (case map_of flippedAttributes attribute of Some k \<Rightarrow> k | None \<Rightarrow> attribute)"

text \<open>The attribute is absent from the descriptor, or its value is a string.\<close>

definition string_valued :: "style \<Rightarrow> string \<Rightarrow> bool" where
  "string_valued style k =
     (case map_of style k of
        None \<Rightarrow> True
      | Some v \<Rightarrow> (case v of JStr s \<Rightarrow> True | _ \<Rightarrow> False))"


section \<open>The slider\<close>

text \<open>
  The properties the slider's arithmetic reads. \<open>value\<close> and \<open>defaultValue\<close> may
  be absent (\<open>undefined\<close>); \<open>min\<close>, \<open>max\<close> and \<open>step\<close> default to 0, 1 and
  0.01. The callback properties are not part of the record: a call of one is recorded
  as a notification, delivered when the callback is supplied.
\<close>

record props =
  value_prop :: "jsnum option"
  defaultValue :: "jsnum option"
  min_prop :: jsnum
  max_prop :: jsnum
  step :: jsnum
  disabled :: bool

record state =
  active :: bool
  dragging :: bool
  focused :: bool
  hovered :: bool
  percent :: jsnum
  value_state :: jsnum

datatype notification = OnChange jsnum | OnDragStart | OnDragStop

text \<open>The four handlers the component registers on the document.\<close>

datatype listener = DragHandler | DragEndHandler | DragTouchHandler | DragTouchEndHandler

text \<open>
  The component instance together with what it reads and writes outside itself: the
  left edge and the width of the track element, the listeners registered on the
  document, the callbacks waiting for the next animation frame (each with the
  \<open>clientX\<close> of its event), the notifications sent so far, and whether the component is
  mounted. \<open>setState\<close> is taken to update the state at once: no method reads the
  state between a \<open>setState\<close> of its own and its end, and the callbacks of
  \<open>setState\<close> run after the update.
\<close>

record slider =
  props :: props
  state :: state
  dragRunning :: bool
  track_left :: jsnum
  track_clientWidth :: jsnum
  document_listeners :: "(string \<times> listener) list"
  animation_frames :: "jsnum list"
  notified :: "notification list"
  mounted :: bool

definition initial_state :: state where
  "initial_state =
     \<lparr>active = False, dragging = False, focused = False, hovered = False,
      percent = Fin 0, value_state = Fin 0\<rparr>"

definition addEventListener :: "string \<Rightarrow> listener \<Rightarrow> slider \<Rightarrow> slider" where
  "addEventListener type l this =
     (if (type, l) \<in> set (document_listeners this) then this
      else this\<lparr>document_listeners := document_listeners this @ [(type, l)]\<rparr>)"

definition removeEventListener :: "string \<Rightarrow> listener \<Rightarrow> slider \<Rightarrow> slider" where
  "removeEventListener type l this =
     this\<lparr>document_listeners := removeAll (type, l) (document_listeners this)\<rparr>"

definition notify :: "notification \<Rightarrow> slider \<Rightarrow> slider" where
  "notify n this = this\<lparr>notified := notified this @ [n]\<rparr>"

text \<open>\<open>(v - min) / (max - min)\<close>, as \<open>componentWillMount\<close>, \<open>setValue\<close>,
  \<open>setPercent\<close> and \<open>onHandleKeyDown\<close> each write it.\<close>

definition fraction :: "props \<Rightarrow> jsnum \<Rightarrow> jsnum" where
  "fraction p v = js_div (js_sub v (min_prop p)) (js_sub (max_prop p) (min_prop p))"

definition componentWillMount :: "slider \<Rightarrow> slider" where
  "componentWillMount this =
     (let p = props this;
          v = (case value_prop p of
                 Some v \<Rightarrow> v
               | None \<Rightarrow> (case defaultValue p of Some d \<Rightarrow> d | None \<Rightarrow> min_prop p));
          pc = fraction p v
      in this\<lparr>state := (state this)\<lparr>percent := (if isNaN pc then Fin 0 else pc),
                                       value_state := v\<rparr>\<rparr>)"

definition setValue :: "jsnum \<Rightarrow> slider \<Rightarrow> slider" where
  "setValue i this =
     (let pc = fraction (props this) i
      in this\<lparr>state := (state this)\<lparr>value_state := i,
                                       percent := (if isNaN pc then Fin 0 else pc)\<rparr>\<rparr>)"


definition alignValue :: "props \<Rightarrow> jsnum \<Rightarrow> jsnum" where
  "alignValue p val =
     parseFloat_toFixed5
       (js_add (js_mul (Math_round (js_div (js_sub val (min_prop p)) (step p))) (step p))
          (min_prop p))"

definition percentToValue :: "props \<Rightarrow> jsnum \<Rightarrow> jsnum" where
  "percentToValue p pc = js_add (js_mul pc (js_sub (max_prop p) (min_prop p))) (min_prop p)"

text \<open>\<open>setPercent(percent, callback)\<close>; the callback runs once the state is
  updated, and not at all when the value is the one already stored.\<close>

definition setPercent :: "jsnum \<Rightarrow> (slider \<Rightarrow> slider) \<Rightarrow> slider \<Rightarrow> slider" where
  "setPercent pc callback this =
     (let v = alignValue (props this) (percentToValue (props this) pc);
          alignedPercent = fraction (props this) v
      in if \<not> js_seq (value_state (state this)) v
         then callback (this\<lparr>state := (state this)\<lparr>value_state := v,
                                                     percent := alignedPercent\<rparr>\<rparr>)
         else this)"

definition updateWithChangeEvent :: "jsnum \<Rightarrow> slider \<Rightarrow> slider" where
  "updateWithChangeEvent pc this =
     setPercent pc (\<lambda>t. notify (OnChange (value_state (state t))) t) this"

definition dragX :: "jsnum \<Rightarrow> slider \<Rightarrow> slider" where
  "dragX pos this =
     (let mx = track_clientWidth this;
          pos' = (if js_lt pos (Fin 0) then Fin 0 else if js_lt mx pos then mx else pos)
      in updateWithChangeEvent (js_div pos' mx) this)"

definition onDragStart :: "slider \<Rightarrow> slider" where
  "onDragStart this =
     notify OnDragStart (this\<lparr>state := (state this)\<lparr>dragging := True, active := True\<rparr>\<rparr>)"

definition onDragStop :: "slider \<Rightarrow> slider" where
  "onDragStop this =
     notify OnDragStop (this\<lparr>state := (state this)\<lparr>dragging := False, active := False\<rparr>\<rparr>)"

definition onDragUpdate :: "jsnum \<Rightarrow> slider \<Rightarrow> slider" where
  "onDragUpdate pos this =
     (if \<not> dragging (state this) then this
      else if \<not> disabled (props this) then dragX pos this else this)"

definition onHandleTouchStart :: "slider \<Rightarrow> slider" where
  "onHandleTouchStart this =
     onDragStart
       (addEventListener ''touchcancel'' DragTouchEndHandler
         (addEventListener ''touchend'' DragTouchEndHandler
           (addEventListener ''touchup'' DragTouchEndHandler
             (addEventListener ''touchmove'' DragTouchHandler this))))"

text \<open>The focus the mouse handler gives the handle element is left out: it touches
  neither the value nor the listeners.\<close>

definition onHandleMouseDown :: "slider \<Rightarrow> slider" where
  "onHandleMouseDown this =
     onDragStart
       (addEventListener ''mouseup'' DragEndHandler
         (addEventListener ''mousemove'' DragHandler this))"

datatype action = Decrease | Increase | Home | End

text \<open>The first switch of \<open>onHandleKeyDown\<close>, on the name \<open>keycode(event)\<close> gives
  the key.\<close>

definition key_action :: "string \<Rightarrow> action option" where
  "key_action k =
     (if k = ''page down'' \<or> k = ''left'' \<or> k = ''down'' then Some Decrease
      else if k = ''page up'' \<or> k = ''right'' \<or> k = ''up'' then Some Increase
      else if k = ''home'' then Some Home
      else if k = ''end'' then Some End
      else None)"

definition onHandleKeyDown :: "string \<Rightarrow> slider \<Rightarrow> slider" where
  "onHandleKeyDown k this =
     (case key_action k of
        None \<Rightarrow> this
      | Some a \<Rightarrow>
          (let p = props this;
               (newValue, newPercent) =
                 (case a of
                    Decrease \<Rightarrow>
                      (let nv = Math_max (min_prop p) (js_sub (value_state (state this)) (step p))
                       in (nv, fraction p nv))
                  | Increase \<Rightarrow>
                      (let nv = Math_min (max_prop p) (js_add (value_state (state this)) (step p))
                       in (nv, fraction p nv))
                  | Home \<Rightarrow> (min_prop p, Fin 0)
                  | End \<Rightarrow> (max_prop p, Fin 1))
           in if \<not> js_seq (value_state (state this)) newValue
              then notify (OnChange (parseFloat_toFixed5 newValue))
                     (this\<lparr>state := (state this)\<lparr>percent := newPercent,
                                                      value_state := parseFloat_toFixed5 newValue\<rparr>\<rparr>)
              else this))"

text \<open>\<open>dragHandler\<close> and \<open>dragTouchHandler\<close>, with the \<open>clientX\<close> of the event (of
  its first touch): at most one callback waits for the animation frame.\<close>

definition dragHandler :: "jsnum \<Rightarrow> slider \<Rightarrow> slider" where
  "dragHandler clientX this =
     (if dragRunning this then this
      else this\<lparr>dragRunning := True, animation_frames := animation_frames this @ [clientX]\<rparr>)"

definition dragTouchHandler :: "jsnum \<Rightarrow> slider \<Rightarrow> slider" where
  "dragTouchHandler clientX this =
     (if dragRunning this then this
      else this\<lparr>dragRunning := True, animation_frames := animation_frames this @ [clientX]\<rparr>)"

text \<open>The browser runs the first waiting animation-frame callback.\<close>

definition animation_frame :: "slider \<Rightarrow> slider" where
  "animation_frame this =
     (case animation_frames this of
        [] \<Rightarrow> this
      | clientX # rest \<Rightarrow>
          (onDragUpdate (js_sub clientX (track_left this))
             (this\<lparr>animation_frames := rest\<rparr>))\<lparr>dragRunning := False\<rparr>)"

definition dragEndHandler :: "slider \<Rightarrow> slider" where
  "dragEndHandler this =
     onDragStop
       (removeEventListener ''mouseup'' DragEndHandler
         (removeEventListener ''mousemove'' DragHandler this))"

definition dragTouchEndHandler :: "slider \<Rightarrow> slider" where
  "dragTouchEndHandler this =
     onDragStop
       (removeEventListener ''touchcancel'' DragTouchEndHandler
         (removeEventListener ''touchend'' DragTouchEndHandler
           (removeEventListener ''touchup'' DragTouchEndHandler
             (removeEventListener ''touchmove'' DragTouchHandler this))))"

text \<open>The handlers of the track: a press on the track first moves the value to the
  place of the press.\<close>

definition handleTouchStart :: "jsnum \<Rightarrow> slider \<Rightarrow> slider" where
  "handleTouchStart clientX this =
     (if \<not> disabled (props this) \<and> \<not> dragging (state this)
      then onHandleTouchStart (dragX (js_sub clientX (track_left this)) this)
      else this)"

definition handleMouseDown :: "jsnum \<Rightarrow> slider \<Rightarrow> slider" where
  "handleMouseDown clientX this =
     (if \<not> disabled (props this) \<and> \<not> dragging (state this)
      then onHandleMouseDown (dragX (js_sub clientX (track_left this)) this)
      else this)"

text \<open>
  An event of the given type reaches the document: the handlers registered for the type
  run, in the order of registration.
\<close>

definition call_listener :: "jsnum \<Rightarrow> listener \<Rightarrow> slider \<Rightarrow> slider" where
  "call_listener clientX l this =
     (case l of
        DragHandler \<Rightarrow> dragHandler clientX this
      | DragEndHandler \<Rightarrow> dragEndHandler this
      | DragTouchHandler \<Rightarrow> dragTouchHandler clientX this
      | DragTouchEndHandler \<Rightarrow> dragTouchEndHandler this)"

definition document_event :: "string \<Rightarrow> jsnum \<Rightarrow> slider \<Rightarrow> slider" where
  "document_event type clientX this =
     fold (call_listener clientX)
       (map snd (filter (\<lambda>(t, l). t = type) (document_listeners this))) this"

text \<open>The class defines no \<open>componentWillUnmount\<close>: when the component is unmounted
  no code of the slider runs.\<close>

definition unmount :: "slider \<Rightarrow> slider" where
  "unmount this = this\<lparr>mounted := False\<rparr>"

text \<open>
  The moves of a drag: a \<open>mousemove\<close> or \<open>touchmove\<close> on the document, or an
  animation frame.
\<close>

datatype move = DocumentMove string jsnum | AnimationFrame

fun drag_move :: "move \<Rightarrow> slider \<Rightarrow> slider" where
  "drag_move (DocumentMove type clientX) this =
     (if type = ''mousemove'' \<or> type = ''touchmove'' then document_event type clientX this
      else this)"
| "drag_move AnimationFrame this = animation_frame this"


text \<open>
  The component as it is created to be mounted, for given properties and a given place
  of the track, with nothing registered on the document. \<open>defaultProps\<close> are the
  defaults of the class. The examples below mount a slider on a track 200 wide.
\<close>

definition constructed :: "props \<Rightarrow> jsnum \<Rightarrow> jsnum \<Rightarrow> slider" where
  "constructed p left width =
     \<lparr>props = p, state = initial_state, dragRunning = False, track_left = left,
      track_clientWidth = width, document_listeners = [], animation_frames = [],
      notified = [], mounted = True\<rparr>"

definition defaultProps :: props where
  "defaultProps =
     \<lparr>value_prop = None, defaultValue = None, min_prop = Fin 0, max_prop = Fin 1,
      step = fl (1 / 100), disabled = False\<rparr>"

abbreviation mounted_slider :: "props \<Rightarrow> slider" where
  "mounted_slider p \<equiv> componentWillMount (constructed p (Fin 0) (Fin 200))"

text \<open>The properties of the examples: defaults but for the fields told.\<close>

abbreviation unaligned_props :: props where
  "unaligned_props \<equiv> defaultProps\<lparr>value_prop := Some (Fin 1), max_prop := Fin 10, step := Fin 2\<rparr>"

abbreviation overshoot_props :: props where
  "overshoot_props \<equiv> defaultProps\<lparr>max_prop := fl (1 / 2), step := fl (3 / 10)\<rparr>"

abbreviation rounding_props :: props where
  "rounding_props \<equiv> defaultProps\<lparr>value_prop := Some (fl (1 / 100)), step := fl (6 / 100)\<rparr>"

abbreviation half_props :: props where
  "half_props \<equiv> defaultProps\<lparr>value_prop := Some (fl (1 / 2))\<rparr>"

abbreviation fine_min_props :: props where
  "fine_min_props \<equiv> defaultProps\<lparr>value_prop := Some (fl (1 / 2)), min_prop := fl (4 / 10 ^ 6)\<rparr>"

abbreviation fine_step_props :: props where
  "fine_step_props \<equiv> defaultProps\<lparr>value_prop := Some (fl (1 / 10 ^ 5)), step := fl (6 / 10 ^ 6)\<rparr>"


text \<open>A value with more than five decimals, 0.123456789.\<close>

abbreviation long_value :: jsnum where
  "long_value \<equiv> fl (123456789 / 10 ^ 9)"

subsection \<open>The specification's wording, for comparison\<close>

text \<open>
  The value the specification gives a keyboard step: the old value plus or minus
  \<open>step\<close>, aligned and rounded as a drag update is, clamped to \<open>[min, max]\<close>.
\<close>

definition spec_keyboard_value :: "props \<Rightarrow> action \<Rightarrow> jsnum \<Rightarrow> jsnum" where
  "spec_keyboard_value p a v =
     Math_max (min_prop p)
       (Math_min (max_prop p)
          (alignValue p (if a = Increase then js_add v (step p) else js_sub v (step p))))"

text \<open>The percentage the specification's invariant gives a value:
  \<open>clamp((value - min) / (max - min), 0, 1)\<close>.\<close>

definition spec_percent :: "props \<Rightarrow> jsnum \<Rightarrow> jsnum" where
  "spec_percent p v = Math_max (Fin 0) (Math_min (Fin 1) (fraction p v))"

section \<open>Evaluation lemmas\<close>

lemma floor_num_div: "\<lfloor>(numeral a :: rat) / numeral b\<rfloor> = numeral a div numeral b"
  using floor_divide_of_int_eq [of "numeral a" "numeral b", where ?'a = rat] by simp

lemma ceiling_num_div: "\<lceil>(numeral a :: rat) / numeral b\<rceil> = - ((- numeral a) div numeral b)"
  using ceiling_divide_eq_div [of "numeral a" "numeral b", where ?'a = rat] by simp

lemmas num_eval = fl_def ilog2_def ilog10_def round_half_even_def pow2_def pow10_def Let_def
  compute_bitlen compute_floorlog floor_num_div ceiling_num_div

lemmas str_eval = parseFloat_def digits_value_def digit_value_def is_digit_def is_space_def
  ToString_def positive_ToString_def digit_candidates_def format_decimal_def digits.simps
  signed_digits_def reTranslate_body_def reSkew_body_def angle_unit_def spaced_angle_def
  group_text_def js_neg_def

lemmas style_eval = ensureDirection_def didFlip_tag_def merge_def Object_keys_def obj_get_def
  truthy_def switch_attribute_def flippedAttributes_def

lemmas slider_eval = constructed_def componentWillMount_def defaultProps_def
  initial_state_def fraction_def js_sub_def js_neg_def js_seq_def isNaN_def Math_max_def
  Math_min_def Math_round_def parseFloat_toFixed5_def onHandleKeyDown_def key_action_def
  notify_def alignValue_def percentToValue_def setPercent_def updateWithChangeEvent_def dragX_def

section \<open>Properties of \<open>ensureDirection\<close>\<close>

lemma flip_transform_skew_two: "flip_transform ''skew(10deg, 20deg)'' = '',-20deg)''"
  by (simp add: flip_transform_def skew_replacement_def num_eval str_eval)

lemma flip_transform_skew_one: "flip_transform ''skew(10deg)'' = '',NaNundefined)''"
  by (simp add: flip_transform_def skew_replacement_def num_eval str_eval)

lemma flip_transform_skewX: "flip_transform ''skewX(10deg)'' = ''skewX(10deg)''"
  by (simp add: flip_transform_def skew_replacement_def num_eval str_eval)

lemma map_of_obj_set: "map_of (obj_set obj k v) = (map_of obj)(k \<mapsto> v)"
  by (induction obj k v rule: obj_set.induct) (auto simp: fun_eq_iff)

lemma keys_obj_set: "fst ` set (obj_set obj k v) = insert k (fst ` set obj)"
  by (induction obj k v rule: obj_set.induct) auto

lemma obj_set_fresh: "k \<notin> fst ` set obj \<Longrightarrow> obj_set obj k v = obj @ [(k, v)]"
  by (induction obj k v rule: obj_set.induct) auto

lemma distinct_obj_set: "distinct (map fst obj) \<Longrightarrow> distinct (map fst (obj_set obj k v))"
  by (induction obj k v rule: obj_set.induct) (auto simp: keys_obj_set)

lemma merge_Nil: "merge base [] = base"
  by (simp add: merge_def)

lemma merge_Cons: "merge base ((k, v) # later) = merge (obj_set base k v) later"
  by (simp add: merge_def)

lemma distinct_merge: "distinct (map fst base) \<Longrightarrow> distinct (map fst (merge base later))"
proof (induction later arbitrary: base)
  case Nil
  then show ?case by (simp add: merge_Nil)
next
  case (Cons kv later)
  then show ?case by (cases kv) (simp add: merge_Cons distinct_obj_set)
qed


lemma map_of_merge:
  "distinct (map fst later) \<Longrightarrow> map_of (merge base later) = map_of base ++ map_of later"
proof (induction later arbitrary: base)
  case Nil
  then show ?case by (simp add: merge_Nil)
next
  case (Cons kv later)
  obtain k v where kv: "kv = (k, v)" by (cases kv)
  from Cons.prems kv have fresh: "map_of later k = None" and d: "distinct (map fst later)"
    by (auto simp: map_of_eq_None_iff)
  have "map_of (merge base (kv # later)) = map_of (obj_set base k v) ++ map_of later"
    unfolding kv merge_Cons by (rule Cons.IH [OF d])
  also have "\<dots> = (map_of base)(k \<mapsto> v) ++ map_of later"
    by (simp only: map_of_obj_set)
  also have "\<dots> = map_of base ++ map_of (kv # later)"
    using fresh by (auto simp: kv fun_eq_iff map_add_def split: option.splits)
  finally show ?case .
qed



lemma switch_other:
  "k \<noteq> ''float'' \<Longrightarrow> k \<noteq> ''textAlign'' \<Longrightarrow> k \<noteq> ''direction'' \<Longrightarrow> k \<noteq> ''transform'' \<Longrightarrow>
   k \<noteq> ''transformOrigin'' \<Longrightarrow> switch_attribute k v = Inr v"
  by (simp add: switch_attribute_def)










lemma switch_Inr_iff:
  "(\<exists>w. switch_attribute k v = Inr w)
     \<longleftrightarrow> (k = ''transform'' \<or> k = ''transformOrigin'' \<longrightarrow> (\<exists>s. v = JStr s))"
  by (cases v) (auto simp: switch_attribute_def)

lemma switch_keeps_string:
  "switch_attribute k v = Inr w \<Longrightarrow> k = ''transform'' \<or> k = ''transformOrigin'' \<Longrightarrow> \<exists>s. w = JStr s"
  by (cases v) (auto simp: switch_attribute_def)

lemma forEach_ok:
  "\<forall>k\<in>set ks. \<exists>w. switch_attribute k (obj_get style k) = Inr w \<Longrightarrow>
   \<exists>out. forEach_attribute style ks acc = Inr out"
  by (induction ks arbitrary: acc) auto

lemma forEach_all_Inr:
  "forEach_attribute style ks acc = Inr out \<Longrightarrow>
   \<forall>k\<in>set ks. \<exists>w. switch_attribute k (obj_get style k) = Inr w"
  by (induction ks arbitrary: acc) (auto split: sum.splits)

lemma forEach_distinct:
  "forEach_attribute style ks acc = Inr out \<Longrightarrow> distinct (map fst acc) \<Longrightarrow>
   distinct (map fst out)"
  by (induction ks arbitrary: acc) (auto split: sum.splits simp: distinct_obj_set)

lemma pair_target:
  "map_of flippedAttributes a = Some k' \<Longrightarrow> map_of flippedAttributes k' \<noteq> None"
  by (auto simp: flippedAttributes_def split: if_splits)

lemma forEach_lookup:
  assumes "forEach_attribute style ks acc = Inr out"
    and "map_of flippedAttributes c = None"
  shows "map_of out c =
           (if c \<in> set ks then
              (case switch_attribute c (obj_get style c) of Inr w \<Rightarrow> Some w | Inl e \<Rightarrow> None)
            else map_of acc c)"
  using assms(1)
proof (induction ks arbitrary: acc)
  case Nil
  then show ?case by simp
next
  case (Cons a ks)
  let ?key = "case map_of flippedAttributes a of Some k \<Rightarrow> k | None \<Rightarrow> a"
  from Cons.prems obtain w where w: "switch_attribute a (obj_get style a) = Inr w"
    and rest: "forEach_attribute style ks (obj_set acc ?key w) = Inr out"
    by (auto split: sum.splits)
  have key: "?key = c \<longleftrightarrow> a = c"
    using assms(2) pair_target [of a] by (auto split: option.splits)
  show ?case
    using Cons.IH [OF rest] w key by (auto simp: map_of_obj_set)
qed




lemma map_of_merge_absent:
  "map_of later k = None \<Longrightarrow> map_of (merge base later) k = map_of base k"
proof (induction later arbitrary: base)
  case Nil
  then show ?case by (simp add: merge_Nil)
next
  case (Cons kv later)
  obtain k' v where kv: "kv = (k', v)" by (cases kv)
  with Cons.prems have "k' \<noteq> k" and "map_of later k = None"
    by (auto split: if_splits)
  then show ?case
    using Cons.IH [of "obj_set base k' v"] by (simp add: kv merge_Cons map_of_obj_set)
qed

lemma map_of_tagged:
  "distinct (map fst style) \<Longrightarrow> k \<noteq> ''didFlip'' \<Longrightarrow>
   map_of (merge [(''didFlip'', t)] style) k = map_of style k"
  by (simp add: map_of_merge map_add_def split: option.splits)





text \<open>
  C1. The claim asks that under a right-to-left theme a \<open>skew\<close>, \<open>skewX\<close> or
  \<open>skewY\<close> function of a \<open>transform\<close> has its first angle negated, and its second
  when there is one, with the rest of the string unchanged. The code does otherwise:
  the text matched is replaced by a comma and the negated second angle alone, by
  \<open>,NaNundefined\<close> when there is no second angle, and \<open>skewX\<close> (as \<open>skewY\<close>) is not
  matched at all, the expression knowing the lower-case names only.
\<close>

theorem ensureDirection_skew_results:
  "ensureDirection False (Some \<lparr>isRtl = True\<rparr>) [(''transform'', JStr ''skew(10deg, 20deg)'')]
     = ([], Inr [(''transform'', JStr '',-20deg)'')])
   \<and> ensureDirection False (Some \<lparr>isRtl = True\<rparr>) [(''transform'', JStr ''skew(10deg)'')]
     = ([], Inr [(''transform'', JStr '',NaNundefined)'')])
   \<and> ensureDirection False (Some \<lparr>isRtl = True\<rparr>) [(''transform'', JStr ''skewX(10deg)'')]
     = ([], Inr [(''transform'', JStr ''skewX(10deg)'')])"
  by (simp add: style_eval flip_transform_skew_two flip_transform_skew_one flip_transform_skewX)

lemma second_pass_string:
  assumes run: "forEach_attribute style (Object_keys style) [] = Inr out"
    and c: "c = ''transform'' \<or> c = ''transformOrigin''"
    and present: "c \<in> fst ` set out"
  shows "\<exists>s. obj_get out c = JStr s"
proof -
  have np: "map_of flippedAttributes c = None"
    using c by (elim disjE) (simp_all add: flippedAttributes_def)
  from present obtain w where w: "map_of out c = Some w"
    by (metis domD dom_map_of_conv_image_fst)
  have look: "map_of out c =
      (if c \<in> set (Object_keys style) then
         (case switch_attribute c (obj_get style c) of Inr w \<Rightarrow> Some w | Inl e \<Rightarrow> None)
       else map_of [] c)"
    using run np by (rule forEach_lookup)
  with w have "switch_attribute c (obj_get style c) = Inr w"
    by (auto split: if_splits sum.splits)
  then obtain s where "w = JStr s"
    using c switch_keeps_string by blast
  with w show ?thesis by (simp add: obj_get_def)
qed

lemma ensureDirection_development:
  "ensureDirection True muiTheme style =
     (if truthy (obj_get style ''didFlip'') then [CalledTwice] else [],
      if (case muiTheme of None \<Rightarrow> False | Some t \<Rightarrow> isRtl t)
      then forEach_attribute (merge [(''didFlip'', JStr ''true'')] style)
             (Object_keys (merge [(''didFlip'', JStr ''true'')] style)) []
      else Inr (merge [(''didFlip'', JStr ''true'')] style))"
  by (simp add: ensureDirection_def Let_def didFlip_tag_def split: option.splits)

lemma mirrored_key_cases:
  "mirrored_key a = a \<and> map_of flippedAttributes a = None
   \<or> a = ''right'' \<or> a = ''left'' \<or> a = ''marginRight'' \<or> a = ''marginLeft''
   \<or> a = ''paddingRight'' \<or> a = ''paddingLeft'' \<or> a = ''borderRight'' \<or> a = ''borderLeft''"
  by (simp add: mirrored_key_def flippedAttributes_def)

lemma mirrored_key_table:
  "mirrored_key ''right'' = ''left''" "mirrored_key ''left'' = ''right''"
  "mirrored_key ''marginRight'' = ''marginLeft''" "mirrored_key ''marginLeft'' = ''marginRight''"
  "mirrored_key ''paddingRight'' = ''paddingLeft''" "mirrored_key ''paddingLeft'' = ''paddingRight''"
  "mirrored_key ''borderRight'' = ''borderLeft''" "mirrored_key ''borderLeft'' = ''borderRight''"
  by (simp_all add: mirrored_key_def flippedAttributes_def)

lemma mirrored_key_involution: "mirrored_key (mirrored_key a) = a"
  using mirrored_key_cases [of a]
  by (elim disjE conjE) (simp_all add: mirrored_key_table)

lemma mirrored_key_eq_iff: "mirrored_key a = mirrored_key b \<longleftrightarrow> a = b"
  by (metis mirrored_key_involution)

lemma forEach_mirrored:
  assumes "forEach_attribute style ks acc = Inr out"
  shows "map_of out (mirrored_key k) =
           (if k \<in> set ks then
              (case switch_attribute k (obj_get style k) of Inr w \<Rightarrow> Some w | Inl e \<Rightarrow> None)
            else map_of acc (mirrored_key k))"
  using assms
proof (induction ks arbitrary: acc)
  case Nil
  then show ?case by simp
next
  case (Cons a ks)
  from Cons.prems obtain w where w: "switch_attribute a (obj_get style a) = Inr w"
    and rest: "forEach_attribute style ks (obj_set acc (mirrored_key a) w) = Inr out"
    by (auto simp: mirrored_key_def split: sum.splits)
  show ?case
    using Cons.IH [OF rest] w by (auto simp: map_of_obj_set mirrored_key_eq_iff)
qed

lemma merge_rebuild:
  "distinct (map fst (pre @ rest)) \<Longrightarrow> merge pre rest = pre @ rest"
proof (induction rest arbitrary: pre)
  case Nil
  then show ?case by (simp add: merge_Nil)
next
  case (Cons kv rest)
  obtain k v where kv: "kv = (k, v)" by (cases kv)
  from Cons.prems kv have fresh: "k \<notin> fst ` set pre" by auto
  have d: "distinct (map fst ((pre @ [(k, v)]) @ rest))"
    using Cons.prems kv by simp
  show ?case
    using Cons.IH [OF d] by (simp add: kv merge_Cons obj_set_fresh [OF fresh])
qed

lemma merge_over_marker:
  assumes "distinct (map fst ((''didFlip'', d) # rest))"
  shows "merge [(''didFlip'', t)] ((''didFlip'', d) # rest) = (''didFlip'', d) # rest"
  using merge_rebuild [of "[(''didFlip'', d)]" rest] assms by (simp add: merge_Cons)

lemma obj_set_head: "\<exists>w' kvs'. obj_set ((k, w) # kvs) key v = (k, w') # kvs'"
  by simp

lemma merge_head: "\<exists>w' kvs'. merge ((k, w) # kvs) later = (k, w') # kvs'"
proof (induction later arbitrary: w kvs)
  case Nil
  then show ?case by (simp add: merge_Nil)
next
  case (Cons kv later)
  obtain k' v' where kv: "kv = (k', v')" by (cases kv)
  obtain w2 kvs2 where "obj_set ((k, w) # kvs) k' v' = (k, w2) # kvs2"
    using obj_set_head by blast
  then show ?case
    using Cons.IH [of w2 kvs2] by (simp add: kv merge_Cons)
qed

lemma forEach_head:
  "forEach_attribute style ks ((k, w) # acc) = Inr out \<Longrightarrow> \<exists>w' kvs'. out = (k, w') # kvs'"
proof (induction ks arbitrary: w acc)
  case Nil
  then show ?case by auto
next
  case (Cons a ks)
  from Cons.prems obtain v where
    rest: "forEach_attribute style ks (obj_set ((k, w) # acc) (mirrored_key a) v) = Inr out"
    by (auto simp: mirrored_key_def split: sum.splits)
  obtain w2 kvs2 where "obj_set ((k, w) # acc) (mirrored_key a) v = (k, w2) # kvs2"
    using obj_set_head by blast
  with rest show ?case
    using Cons.IH [of w2 kvs2] by simp
qed

lemma marker_of_tagged:
  "distinct (map fst style) \<Longrightarrow>
   map_of (merge [(''didFlip'', t)] style) ''didFlip''
     = Some (case map_of style ''didFlip'' of None \<Rightarrow> t | Some v \<Rightarrow> v)"
  by (simp add: map_of_merge map_add_def split: option.splits)


lemma ensureDirection_production:
  "ensureDirection False muiTheme style =
     ([], if is_rtl muiTheme then forEach_attribute style (Object_keys style) [] else Inr style)"
  by (simp add: ensureDirection_def Let_def is_rtl_def split: option.splits)

lemma ensureDirection_marked:
  assumes "distinct (map fst out)" and "out = (''didFlip'', d) # rest" and "truthy d"
  shows "ensureDirection True muiTheme out =
     ([CalledTwice],
      if is_rtl muiTheme then forEach_attribute out (Object_keys out) [] else Inr out)"
proof -
  have "merge [(''didFlip'', JStr ''true'')] out = out"
    using assms(1,2) merge_over_marker by simp
  moreover have "truthy (obj_get out ''didFlip'')"
    using assms(2,3) by (simp add: obj_get_def)
  ultimately show ?thesis
    by (simp add: ensureDirection_development is_rtl_def)
qed

lemma first_pass_shape:
  assumes keys: "distinct (map fst style)"
    and first: "ensureDirection True theme1 style = (ws, Inr out)"
  shows "distinct (map fst out)
       \<and> (\<exists>rest. out = (''didFlip'', case map_of style ''didFlip'' of
                                          None \<Rightarrow> JStr ''true'' | Some v \<Rightarrow> v) # rest)"
proof -
  let ?tag = "[(''didFlip'', JStr ''true'')]"
  let ?st1 = "merge ?tag style"
  let ?d = "case map_of style ''didFlip'' of None \<Rightarrow> JStr ''true'' | Some v \<Rightarrow> v"
  have d1: "distinct (map fst ?st1)"
    by (rule distinct_merge) simp
  obtain d0 rest1 where shape1: "?st1 = (''didFlip'', d0) # rest1"
    using merge_head by blast
  have "map_of ?st1 ''didFlip'' = Some ?d"
    using keys by (rule marker_of_tagged)
  with shape1 have d0: "d0 = ?d" by simp
  show ?thesis
  proof (cases "is_rtl theme1")
    case False
    with first have "out = ?st1"
      by (simp add: ensureDirection_development is_rtl_def)
    with d1 shape1 d0 show ?thesis by simp
  next
    case True
    with first have run: "forEach_attribute ?st1 (Object_keys ?st1) [] = Inr out"
      by (simp add: ensureDirection_development is_rtl_def)
    have d: "distinct (map fst out)"
      using run by (rule forEach_distinct) simp
    have sw: "switch_attribute ''didFlip'' (obj_get ?st1 ''didFlip'') = Inr d0"
      using shape1 by (simp add: obj_get_def switch_other)
    have mk: "mirrored_key ''didFlip'' = ''didFlip''"
      by (simp add: mirrored_key_def flippedAttributes_def)
    from run have "forEach_attribute ?st1 (map fst rest1) [(''didFlip'', d0)] = Inr out"
      unfolding Object_keys_def shape1 [symmetric]
      using sw mk unfolding shape1 by (simp add: mirrored_key_def)
    then obtain w' rest where "out = (''didFlip'', w') # rest"
      using forEach_head by blast
    moreover have "map_of out ''didFlip'' = Some d0"
      using forEach_mirrored [OF run, of "''didFlip''"] sw mk shape1
      by (simp add: Object_keys_def)
    ultimately show ?thesis
      using d d0 by simp
  qed
qed

lemma second_pass_typed:
  assumes keys: "distinct (map fst style)"
    and first: "ensureDirection True theme1 style = (ws, Inr out)"
    and typed: "\<not> is_rtl theme1 \<longrightarrow>
                  string_valued style ''transform'' \<and> string_valued style ''transformOrigin''"
  shows "\<exists>out'. forEach_attribute out (Object_keys out) [] = Inr out'"
proof -
  let ?tag = "[(''didFlip'', JStr ''true'')]"
  let ?st1 = "merge ?tag style"
  have "\<exists>w. switch_attribute k (obj_get out k) = Inr w" if k: "k \<in> set (Object_keys out)" for k
  proof (cases "k = ''transform'' \<or> k = ''transformOrigin''")
    case False
    then show ?thesis by (simp add: switch_Inr_iff)
  next
    case special: True
    then have kd: "k \<noteq> ''didFlip''" by auto
    have "\<exists>s. obj_get out k = JStr s"
    proof (cases "is_rtl theme1")
      case True
      with first have run: "forEach_attribute ?st1 (Object_keys ?st1) [] = Inr out"
        by (simp add: ensureDirection_development is_rtl_def)
      from k have "k \<in> fst ` set out" by (simp add: Object_keys_def)
      with run special show ?thesis by (rule second_pass_string)
    next
      case False
      with first have out: "out = ?st1"
        by (simp add: ensureDirection_development is_rtl_def)
      have same: "map_of out k = map_of style k"
        unfolding out using keys kd by (rule map_of_tagged)
      from k obtain v where v: "map_of out k = Some v"
        unfolding Object_keys_def by (metis domD dom_map_of_conv_image_fst set_map)
      from typed False special have "string_valued style k" by auto
      with v same show ?thesis
        by (cases v) (simp_all add: string_valued_def obj_get_def)
    qed
    then show ?thesis by (simp add: switch_Inr_iff)
  qed
  then show ?thesis
    using forEach_ok [of "Object_keys out" out "[]"] by blast
qed

lemma flipped_lookup:
  assumes "forEach_attribute out (Object_keys out) [] = Inr out'"
  shows "map_of out' (mirrored_key k) =
           (case map_of out k of
              None \<Rightarrow> None
            | Some v \<Rightarrow> (case switch_attribute k v of Inl e \<Rightarrow> None | Inr w \<Rightarrow> Some w))"
proof (cases "map_of out k")
  case None
  then have "k \<notin> set (Object_keys out)"
    by (simp add: Object_keys_def map_of_eq_None_iff)
  with None show ?thesis
    using forEach_mirrored [OF assms, of k] by simp
next
  case (Some v)
  then have "k \<in> set (Object_keys out)"
    unfolding Object_keys_def by (metis domI dom_map_of_conv_image_fst set_map)
  with Some show ?thesis
    using forEach_mirrored [OF assms, of k] by (simp add: obj_get_def)
qed

lemma flip_transformOrigin_top_left: "flip_transformOrigin ''top left'' = ''top right''"
  by (simp add: flip_transformOrigin_def)

text \<open>
  C6 (as amended). Outside production \<open>ensureDirection\<close> returns its descriptor with
  the marker \<open>didFlip\<close> in front: \<open>true\<close>, or the descriptor's own \<open>didFlip\<close>
  when it has one. Let a descriptor (an object: its keys are distinct) whose own
  \<open>didFlip\<close>, if any, is truthy be passed once, under any theme, and let the call
  return. Then the marker of the descriptor returned is truthy, and a second call on
  that descriptor, under any theme, reads the marker back, reports the warning and
  nothing else, throws nothing, and returns the descriptor flipped again: the
  descriptor the call returns in production, which under a right-to-left theme holds
  every value switched once more and stored under the mirrored key, and otherwise is
  the descriptor itself. Where the second theme is right-to-left and the first was not,
  this asks that the \<open>transform\<close> and the \<open>transformOrigin\<close> of the descriptor,
  when present, are strings.
\<close>

theorem ensureDirection_twice_warns:
  assumes keys: "distinct (map fst style)"
    and marker: "map_of style ''didFlip'' = None \<or> truthy (obj_get style ''didFlip'')"
    and first: "ensureDirection True theme1 style = (ws, Inr out)"
    and typed: "is_rtl theme2 \<and> \<not> is_rtl theme1 \<longrightarrow>
                  string_valued style ''transform'' \<and> string_valued style ''transformOrigin''"
  shows "map_of out ''didFlip''
           = Some (case map_of style ''didFlip'' of None \<Rightarrow> JStr ''true'' | Some v \<Rightarrow> v)
       \<and> truthy (obj_get out ''didFlip'')
       \<and> (\<exists>out'. ensureDirection True theme2 out = ([CalledTwice], Inr out')
              \<and> ensureDirection False theme2 out = ([], Inr out')
              \<and> (if is_rtl theme2
                  then \<forall>k. map_of out' (mirrored_key k) =
                         (case map_of out k of
                            None \<Rightarrow> None
                          | Some v \<Rightarrow>
                              (case switch_attribute k v of Inl e \<Rightarrow> None | Inr w \<Rightarrow> Some w))
                  else out' = out))"
proof -
  let ?d = "case map_of style ''didFlip'' of None \<Rightarrow> JStr ''true'' | Some v \<Rightarrow> v"
  from first_pass_shape [OF keys first] obtain rest where
    d: "distinct (map fst out)" and shape: "out = (''didFlip'', ?d) # rest"
    by blast
  have tr: "truthy ?d"
    using marker by (auto simp: obj_get_def truthy_def split: option.splits)
  have flag: "map_of out ''didFlip'' = Some ?d"
    by (subst shape) simp
  have truthy: "truthy (obj_get out ''didFlip'')"
    using flag tr by (simp add: obj_get_def)
  have dev: "ensureDirection True theme2 out =
     ([CalledTwice],
      if is_rtl theme2 then forEach_attribute out (Object_keys out) [] else Inr out)"
    using d shape tr by (rule ensureDirection_marked)
  have again: "\<exists>out'. ensureDirection True theme2 out = ([CalledTwice], Inr out')
              \<and> ensureDirection False theme2 out = ([], Inr out')
              \<and> (if is_rtl theme2
                  then \<forall>k. map_of out' (mirrored_key k) =
                         (case map_of out k of
                            None \<Rightarrow> None
                          | Some v \<Rightarrow>
                              (case switch_attribute k v of Inl e \<Rightarrow> None | Inr w \<Rightarrow> Some w))
                  else out' = out)"
  proof (cases "is_rtl theme2")
    case False
    then show ?thesis
      by (simp add: dev ensureDirection_production)
  next
    case True
    with typed have "\<not> is_rtl theme1 \<longrightarrow>
        string_valued style ''transform'' \<and> string_valued style ''transformOrigin''"
      by simp
    with keys first obtain out' where
      run: "forEach_attribute out (Object_keys out) [] = Inr out'"
      using second_pass_typed by blast
    show ?thesis
      using True run flipped_lookup [OF run]
      by (simp add: dev ensureDirection_production)
  qed
  from flag truthy again show ?thesis by blast
qed


theorem ensureDirection_twice_warns_witness:
  "distinct (map fst [(''left'', JNum (Fin 5))])
   \<and> map_of [(''left'', JNum (Fin 5))] ''didFlip'' = None
   \<and> ensureDirection True (Some \<lparr>isRtl = True\<rparr>) [(''left'', JNum (Fin 5))]
       = ([], Inr [(''didFlip'', JStr ''true''), (''right'', JNum (Fin 5))])
   \<and> ensureDirection True (Some \<lparr>isRtl = True\<rparr>)
        [(''didFlip'', JStr ''true''), (''right'', JNum (Fin 5))]
       = ([CalledTwice], Inr [(''didFlip'', JStr ''true''), (''left'', JNum (Fin 5))])
   \<and> ensureDirection False (Some \<lparr>isRtl = True\<rparr>)
        [(''didFlip'', JStr ''true''), (''right'', JNum (Fin 5))]
       = ([], Inr [(''didFlip'', JStr ''true''), (''left'', JNum (Fin 5))])
   \<and> distinct (map fst [(''float'', JStr ''left''), (''transformOrigin'', JStr ''top left'')])
   \<and> map_of [(''float'', JStr ''left''), (''transformOrigin'', JStr ''top left'')] ''didFlip''
       = None
   \<and> is_rtl (Some \<lparr>isRtl = True\<rparr>)
   \<and> \<not> is_rtl (Some \<lparr>isRtl = False\<rparr>)
   \<and> string_valued [(''float'', JStr ''left''), (''transformOrigin'', JStr ''top left'')]
        ''transform''
   \<and> string_valued [(''float'', JStr ''left''), (''transformOrigin'', JStr ''top left'')]
        ''transformOrigin''
   \<and> ensureDirection True (Some \<lparr>isRtl = False\<rparr>)
        [(''float'', JStr ''left''), (''transformOrigin'', JStr ''top left'')]
       = ([], Inr [(''didFlip'', JStr ''true''), (''float'', JStr ''left''),
                   (''transformOrigin'', JStr ''top left'')])
   \<and> ensureDirection True (Some \<lparr>isRtl = True\<rparr>)
        [(''didFlip'', JStr ''true''), (''float'', JStr ''left''),
         (''transformOrigin'', JStr ''top left'')]
       = ([CalledTwice],
          Inr [(''didFlip'', JStr ''true''), (''float'', JStr ''right''),
               (''transformOrigin'', JStr ''top right'')])
   \<and> ensureDirection False (Some \<lparr>isRtl = True\<rparr>)
        [(''didFlip'', JStr ''true''), (''float'', JStr ''left''),
         (''transformOrigin'', JStr ''top left'')]
       = ([],
          Inr [(''didFlip'', JStr ''true''), (''float'', JStr ''right''),
               (''transformOrigin'', JStr ''top right'')])"
proof -
  let ?rtl = "Some \<lparr>isRtl = True\<rparr>"
  let ?ltr = "Some \<lparr>isRtl = False\<rparr>"
  let ?a = "[(''left'', JNum (Fin 5))]"
  let ?a1 = "[(''didFlip'', JStr ''true''), (''right'', JNum (Fin 5))]"
  let ?a2 = "[(''didFlip'', JStr ''true''), (''left'', JNum (Fin 5))]"
  let ?b = "[(''float'', JStr ''left''), (''transformOrigin'', JStr ''top left'')]"
  let ?b1 = "[(''didFlip'', JStr ''true''), (''float'', JStr ''left''),
              (''transformOrigin'', JStr ''top left'')]"
  let ?b2 = "[(''didFlip'', JStr ''true''), (''float'', JStr ''right''),
              (''transformOrigin'', JStr ''top right'')]"
  have keys_a: "distinct (map fst ?a)" and keys_b: "distinct (map fst ?b)"
    by simp_all
  have fresh_a: "map_of ?a ''didFlip'' = None" and fresh_b: "map_of ?b ''didFlip'' = None"
    by simp_all
  have rtl: "is_rtl ?rtl" and ltr: "\<not> is_rtl ?ltr"
    by (simp_all add: is_rtl_def)
  have strings: "string_valued ?b ''transform''" "string_valued ?b ''transformOrigin''"
    by (simp_all add: string_valued_def)
  have first_a: "ensureDirection True ?rtl ?a = ([], Inr ?a1)"
    by (simp add: style_eval Let_def)
  have first_b: "ensureDirection True ?ltr ?b = ([], Inr ?b1)"
    by (simp add: style_eval Let_def)
  have second_a: "ensureDirection True ?rtl ?a1 = ([CalledTwice], Inr ?a2)"
    by (simp add: style_eval Let_def)
  have second_b: "ensureDirection True ?rtl ?b1 = ([CalledTwice], Inr ?b2)"
    by (simp add: style_eval Let_def flip_transformOrigin_top_left)
  have typed_a: "is_rtl ?rtl \<and> \<not> is_rtl ?rtl \<longrightarrow>
      string_valued ?a ''transform'' \<and> string_valued ?a ''transformOrigin''"
    by simp
  have typed_b: "is_rtl ?rtl \<and> \<not> is_rtl ?ltr \<longrightarrow>
      string_valued ?b ''transform'' \<and> string_valued ?b ''transformOrigin''"
    using strings by simp
  from ensureDirection_twice_warns [OF keys_a disjI1 [OF fresh_a] first_a typed_a]
  obtain a' where "ensureDirection True ?rtl ?a1 = ([CalledTwice], Inr a')"
    and "ensureDirection False ?rtl ?a1 = ([], Inr a')"
    by blast
  with second_a have prod_a: "ensureDirection False ?rtl ?a1 = ([], Inr ?a2)"
    by simp
  from ensureDirection_twice_warns [OF keys_b disjI1 [OF fresh_b] first_b typed_b]
  obtain b' where "ensureDirection True ?rtl ?b1 = ([CalledTwice], Inr b')"
    and "ensureDirection False ?rtl ?b1 = ([], Inr b')"
    by blast
  with second_b have prod_b: "ensureDirection False ?rtl ?b1 = ([], Inr ?b2)"
    by simp
  from keys_a fresh_a first_a second_a prod_a keys_b fresh_b rtl ltr strings first_b second_b
    prod_b
  show ?thesis
    by blast
qed

text \<open>
  The claim as stated fails on a descriptor with a falsy \<open>didFlip\<close> of its own: the
  descriptor returned keeps it, and the second call reports no warning. It fails as well
  on \<open>{transform: 0}\<close> passed first under a left-to-right theme and then under a
  right-to-left one: the second call throws.
\<close>

theorem ensureDirection_twice_counterexample:
  "ensureDirection True (Some \<lparr>isRtl = True\<rparr>)
     [(''didFlip'', JBool False), (''left'', JNum (Fin 5))]
     = ([], Inr [(''didFlip'', JBool False), (''right'', JNum (Fin 5))])
   \<and> ensureDirection True (Some \<lparr>isRtl = True\<rparr>)
       [(''didFlip'', JBool False), (''right'', JNum (Fin 5))]
     = ([], Inr [(''didFlip'', JBool False), (''left'', JNum (Fin 5))])
   \<and> ensureDirection True (Some \<lparr>isRtl = False\<rparr>) [(''transform'', JNum (Fin 0))]
     = ([], Inr [(''didFlip'', JStr ''true''), (''transform'', JNum (Fin 0))])
   \<and> ensureDirection True (Some \<lparr>isRtl = True\<rparr>)
       [(''didFlip'', JStr ''true''), (''transform'', JNum (Fin 0))]
     = ([CalledTwice], Inl TypeError)"
  by (simp add: style_eval)

section \<open>Properties of the slider\<close>

lemma state_notify: "state (notify n this) = state this"
  by (simp add: notify_def)


lemma listeners_notify: "document_listeners (notify n this) = document_listeners this"
  by (simp add: notify_def)





lemma state_componentWillMount:
  "state (componentWillMount this) =
     (let p = props this;
          v = (case value_prop p of
                 Some v \<Rightarrow> v
               | None \<Rightarrow> (case defaultValue p of Some d \<Rightarrow> d | None \<Rightarrow> min_prop p))
      in (state this)\<lparr>percent := (if isNaN (fraction p v) then Fin 0 else fraction p v),
                        value_state := v\<rparr>)"
  by (simp add: componentWillMount_def Let_def)

lemma state_setValue:
  "state (setValue i this) =
     (state this)\<lparr>value_state := i,
                   percent := (if isNaN (fraction (props this) i) then Fin 0
                               else fraction (props this) i)\<rparr>"
  by (simp add: setValue_def Let_def)

lemma state_updateWithChangeEvent:
  "state (updateWithChangeEvent pc this) =
     (let v = alignValue (props this) (percentToValue (props this) pc)
      in if js_seq (value_state (state this)) v then state this
         else (state this)\<lparr>value_state := v, percent := fraction (props this) v\<rparr>)"
  by (simp add: updateWithChangeEvent_def setPercent_def Let_def state_notify)

lemma state_onHandleKeyDown:
  "state (onHandleKeyDown k this) =
     (case key_action k of
        None \<Rightarrow> state this
      | Some a \<Rightarrow>
          (let p = props this; v = value_state (state this);
               nv = (case a of
                       Decrease \<Rightarrow> Math_max (min_prop p) (js_sub v (step p))
                     | Increase \<Rightarrow> Math_min (max_prop p) (js_add v (step p))
                     | Home \<Rightarrow> min_prop p
                     | End \<Rightarrow> max_prop p);
               pc = (case a of Home \<Rightarrow> Fin 0 | End \<Rightarrow> Fin 1 | _ \<Rightarrow> fraction p nv)
           in if js_seq v nv then state this
              else (state this)\<lparr>percent := pc, value_state := parseFloat_toFixed5 nv\<rparr>))"
  by (simp add: onHandleKeyDown_def Let_def state_notify split: option.splits action.splits)

lemma Math_min_le: "\<not> js_lt a (Math_min a b)"
  by (cases a; cases b) (auto simp: Math_min_def)

lemma Math_max_ge: "\<not> js_lt (Math_max a b) a"
  by (cases a; cases b) (auto simp: Math_max_def)

subsection \<open>The examples, evaluated\<close>

lemma sum_not_7_100: "js_add (fl (1 / 100)) (fl (6 / 100)) \<noteq> fl (7 / 100)"
  by (simp add: num_eval)

lemma sum_below_7_100: "js_lt (js_add (fl (1 / 100)) (fl (6 / 100))) (fl (7 / 100))"
  by (simp add: num_eval)

lemma ToString_7_100: "ToString (fl (7 / 100)) = ''0.07''"
  by (simp add: num_eval str_eval)

lemma ToString_6_10: "ToString (fl (6 / 10)) = ''0.6''"
  by (simp add: num_eval str_eval)

lemma ToString_12_10: "ToString (fl (12 / 10)) = ''1.2''"
  by (simp add: num_eval str_eval)

lemma rounding_state:
  "state (onHandleKeyDown ''right'' (mounted_slider rounding_props))
     = initial_state\<lparr>percent := js_add (fl (1 / 100)) (fl (6 / 100)),
                      value_state := fl (7 / 100)\<rparr>"
  by (simp add: slider_eval num_eval)

lemma overshoot_state:
  "state (updateWithChangeEvent (Fin 1) (mounted_slider overshoot_props))
     = initial_state\<lparr>value_state := fl (6 / 10), percent := fl (12 / 10)\<rparr>"
  by (simp add: slider_eval num_eval)

lemma overshoot_facts:
  "fraction overshoot_props (fl (6 / 10)) = fl (12 / 10)"
  "spec_percent overshoot_props (fl (6 / 10)) = Fin 1"
  "fl (12 / 10) \<noteq> Fin 1"
  "js_lt (max_prop overshoot_props) (fl (6 / 10))"
  "js_lt (Fin 1) (fl (12 / 10))"
  by (simp_all add: spec_percent_def slider_eval num_eval)


lemma overshoot_dragX_end:
  "dragX (Fin 200) (mounted_slider overshoot_props)
     = updateWithChangeEvent (Fin 1) (mounted_slider overshoot_props)"
  by (simp add: dragX_def constructed_def componentWillMount_def Let_def num_eval)

lemma fl_1: "fl 1 = Fin 1"
  by (simp add: num_eval)

lemma overshoot_dragX:
  "dragX (Fin 250) (mounted_slider overshoot_props)
     = updateWithChangeEvent (Fin 1) (mounted_slider overshoot_props)"
  by (simp add: dragX_def constructed_def componentWillMount_def Let_def fl_1)


subsection \<open>Keys on the handle\<close>

text \<open>
  C2 (as amended). An arrow, page-up or page-down key adds \<open>step\<close> to the old value
  or subtracts it, clamps the sum at \<open>max\<close> (the difference at \<open>min\<close>), and, when
  the clamped value differs from the old one, stores it rounded to five decimals
  together with the percentage of the clamped value before the rounding; otherwise the
  state stays as it is. No alignment to a multiple of \<open>step\<close> takes place.
\<close>

theorem onHandleKeyDown_steps_without_alignment:
  "list_all
     (\<lambda>k. let p = props this; v = value_state (state this);
              nv = Math_min (max_prop p) (js_add v (step p))
          in state (onHandleKeyDown k this)
               = (if js_seq v nv then state this
                  else (state this)\<lparr>percent := fraction p nv,
                                      value_state := parseFloat_toFixed5 nv\<rparr>)
             \<and> \<not> js_lt (max_prop p) nv)
     [''page up'', ''right'', ''up'']
   \<and> list_all
     (\<lambda>k. let p = props this; v = value_state (state this);
              nv = Math_max (min_prop p) (js_sub v (step p))
          in state (onHandleKeyDown k this)
               = (if js_seq v nv then state this
                  else (state this)\<lparr>percent := fraction p nv,
                                      value_state := parseFloat_toFixed5 nv\<rparr>)
             \<and> \<not> js_lt nv (min_prop p))
     [''page down'', ''left'', ''down'']"
  by (simp add: state_onHandleKeyDown key_action_def Let_def Math_min_le Math_max_ge)

text \<open>
  With \<open>min = 0\<close>, \<open>max = 10\<close>, \<open>step = 2\<close> and the value 1, the key \<open>right\<close>
  stores 3, where a step aligned as a drag update is, and clamped, gives 4.
\<close>

theorem onHandleKeyDown_alignment_counterexample:
  "value_state (state (onHandleKeyDown ''right'' (mounted_slider unaligned_props))) = Fin 3
   \<and> spec_keyboard_value unaligned_props Increase (Fin 1) = Fin 4"
  by (simp add: slider_eval spec_keyboard_value_def num_eval)

text \<open>
  C3 (as amended). The key \<open>home\<close> leaves the state as it is when the value already
  equals \<open>min\<close>; otherwise it sets the percentage to 0 and the value to \<open>min\<close>
  rounded to five decimals, without alignment. The key \<open>end\<close> does the same with 1 and
  \<open>max\<close>. Where the rounding leaves \<open>min\<close> (or \<open>max\<close>) as it is, the value after
  the key is exactly \<open>min\<close> (or \<open>max\<close>).
\<close>

theorem onHandleKeyDown_home_end:
  "state (onHandleKeyDown ''home'' this)
     = (if js_seq (value_state (state this)) (min_prop (props this)) then state this
        else (state this)\<lparr>percent := Fin 0,
                            value_state := parseFloat_toFixed5 (min_prop (props this))\<rparr>)
   \<and> state (onHandleKeyDown ''end'' this)
     = (if js_seq (value_state (state this)) (max_prop (props this)) then state this
        else (state this)\<lparr>percent := Fin 1,
                            value_state := parseFloat_toFixed5 (max_prop (props this))\<rparr>)
   \<and> (parseFloat_toFixed5 (min_prop (props this)) = min_prop (props this) \<longrightarrow>
        value_state (state (onHandleKeyDown ''home'' this)) = min_prop (props this))
   \<and> (parseFloat_toFixed5 (max_prop (props this)) = max_prop (props this) \<longrightarrow>
        value_state (state (onHandleKeyDown ''end'' this)) = max_prop (props this))"
  by (auto simp: state_onHandleKeyDown key_action_def Let_def js_seq_def)

theorem onHandleKeyDown_home_end_witness:
  "parseFloat_toFixed5 (min_prop (props (mounted_slider half_props)))
     = min_prop (props (mounted_slider half_props))
   \<and> value_state (state (onHandleKeyDown ''home'' (mounted_slider half_props)))
     = min_prop (props (mounted_slider half_props))
   \<and> parseFloat_toFixed5 (max_prop (props (mounted_slider half_props)))
     = max_prop (props (mounted_slider half_props))
   \<and> value_state (state (onHandleKeyDown ''end'' (mounted_slider half_props)))
     = max_prop (props (mounted_slider half_props))"
proof -
  have mn: "parseFloat_toFixed5 (min_prop (props (mounted_slider half_props)))
              = min_prop (props (mounted_slider half_props))"
    by (simp add: slider_eval num_eval)
  have mx: "parseFloat_toFixed5 (max_prop (props (mounted_slider half_props)))
              = max_prop (props (mounted_slider half_props))"
    by (simp add: slider_eval num_eval)
  from onHandleKeyDown_home_end [of "mounted_slider half_props"] mn mx show ?thesis
    by blast
qed

text \<open>
  With \<open>min = 0.000004\<close> the key \<open>home\<close> stores the value 0, not \<open>min\<close>. With
  \<open>min = 0\<close>, \<open>step = 0.000006\<close> and the value 0.00001, the key \<open>left\<close> stores
  the value 0 and a percentage above 0, and the key \<open>home\<close> after it changes nothing:
  the percentage is not 0.
\<close>

theorem onHandleKeyDown_home_counterexample:
  "value_state (state (onHandleKeyDown ''home'' (mounted_slider fine_min_props))) = Fin 0
   \<and> min_prop fine_min_props \<noteq> Fin 0
   \<and> percent (state (onHandleKeyDown ''home''
        (onHandleKeyDown ''left'' (mounted_slider fine_step_props))))
     \<noteq> Fin 0"
  by (simp add: slider_eval num_eval)

subsection \<open>The percentage and the value\<close>
















subsection \<open>Rounding to five decimals\<close>

lemma long_value_rounded: "parseFloat_toFixed5 long_value = fl (12346 / 10 ^ 5)"
  by (simp add: parseFloat_toFixed5_def num_eval)

lemma long_value_differs: "fl (12346 / 10 ^ 5) \<noteq> long_value"
  by (simp add: num_eval)

lemma value_setValue: "value_state (state (setValue i this)) = i"
  by (simp add: state_setValue)

lemma value_componentWillMount:
  "value_state (state (componentWillMount this))
     = (case value_prop (props this) of
          Some v \<Rightarrow> v
        | None \<Rightarrow> (case defaultValue (props this) of
                      Some d \<Rightarrow> d
                    | None \<Rightarrow> min_prop (props this)))"
  by (simp add: state_componentWillMount Let_def)

text \<open>
  C8 (as amended). With \<open>step = 0.06\<close> a keyboard increase from the value 0.01 stores
  the double nearest to 0.07, printed \<open>0.07\<close>, though the sum the handler computes is
  a smaller double. Every value the slider computes itself is rounded to five decimals
  before it is stored: a key stores the rounding of the old value plus or minus
  \<open>step\<close>, clamped (of \<open>min\<close> or \<open>max\<close> for \<open>home\<close> and \<open>end\<close>), unless the
  value computed is the one already stored; a drag update stores the rounding of
  \<open>Math.round((v - min) / step) * step + min\<close>, for \<open>v\<close> the value at the fraction of
  the track, unless that is the value already stored. A value handed in from outside, at
  mounting and by \<open>setValue\<close>, is stored as given.
\<close>

theorem value_updates_round:
  "value_state (state (onHandleKeyDown ''right'' (mounted_slider rounding_props)))
     = fl (7 / 100)
   \<and> ToString (fl (7 / 100)) = ''0.07''
   \<and> js_add (fl (1 / 100)) (fl (6 / 100)) \<noteq> fl (7 / 100)
   \<and> js_lt (js_add (fl (1 / 100)) (fl (6 / 100))) (fl (7 / 100))
   \<and> (\<forall>k this. value_state (state (onHandleKeyDown k this))
         = (case key_action k of
              None \<Rightarrow> value_state (state this)
            | Some a \<Rightarrow>
                (let p = props this; v = value_state (state this);
                     computed = (case a of
                                   Decrease \<Rightarrow> Math_max (min_prop p) (js_sub v (step p))
                                 | Increase \<Rightarrow> Math_min (max_prop p) (js_add v (step p))
                                 | Home \<Rightarrow> min_prop p
                                 | End \<Rightarrow> max_prop p)
                 in if js_seq v computed then v else parseFloat_toFixed5 computed)))
   \<and> (\<forall>pc this. value_state (state (updateWithChangeEvent pc this))
         = (let p = props this; v = value_state (state this);
                computed =
                  js_add (js_mul (Math_round (js_div (js_sub (percentToValue p pc) (min_prop p))
                                                (step p)))
                            (step p))
                    (min_prop p)
            in if js_seq v (parseFloat_toFixed5 computed) then v
               else parseFloat_toFixed5 computed))
   \<and> (\<forall>pos this. dragX pos this
         = updateWithChangeEvent
             (js_div (if js_lt pos (Fin 0) then Fin 0
                      else if js_lt (track_clientWidth this) pos then track_clientWidth this
                      else pos)
                (track_clientWidth this)) this)
   \<and> (\<forall>i this. value_state (state (setValue i this)) = i)
   \<and> (\<forall>this. value_state (state (componentWillMount this))
         = (case value_prop (props this) of
              Some v \<Rightarrow> v
            | None \<Rightarrow> (case defaultValue (props this) of
                          Some d \<Rightarrow> d
                        | None \<Rightarrow> min_prop (props this))))"
proof -
  have key: "value_state (state (onHandleKeyDown k this))
         = (case key_action k of
              None \<Rightarrow> value_state (state this)
            | Some a \<Rightarrow>
                (let p = props this; v = value_state (state this);
                     computed = (case a of
                                   Decrease \<Rightarrow> Math_max (min_prop p) (js_sub v (step p))
                                 | Increase \<Rightarrow> Math_min (max_prop p) (js_add v (step p))
                                 | Home \<Rightarrow> min_prop p
                                 | End \<Rightarrow> max_prop p)
                 in if js_seq v computed then v else parseFloat_toFixed5 computed))" for k this
    by (simp add: state_onHandleKeyDown Let_def split: option.splits action.splits)
  have upd: "value_state (state (updateWithChangeEvent pc this))
         = (let p = props this; v = value_state (state this);
                computed =
                  js_add (js_mul (Math_round (js_div (js_sub (percentToValue p pc) (min_prop p))
                                                (step p)))
                            (step p))
                    (min_prop p)
            in if js_seq v (parseFloat_toFixed5 computed) then v
               else parseFloat_toFixed5 computed)" for pc this
    by (simp add: state_updateWithChangeEvent alignValue_def Let_def)
  have drg: "dragX pos this
         = updateWithChangeEvent
             (js_div (if js_lt pos (Fin 0) then Fin 0
                      else if js_lt (track_clientWidth this) pos then track_clientWidth this
                      else pos)
                (track_clientWidth this)) this" for pos this
    by (simp add: dragX_def Let_def)
  have "value_state (state (onHandleKeyDown ''right'' (mounted_slider rounding_props)))
          = fl (7 / 100)"
    unfolding rounding_state by simp
  with ToString_7_100 sum_not_7_100 sum_below_7_100 key upd drg value_setValue
    value_componentWillMount
  show ?thesis
    by blast
qed

text \<open>
  The claim as stated fails for the updates of the value from outside: \<open>setValue\<close>
  and mounting store 0.123456789 as it is, where its rounding to five decimals is
  0.12346.
\<close>

theorem value_given_counterexample:
  "value_state (state (setValue long_value (mounted_slider defaultProps))) = long_value
   \<and> value_state (state (mounted_slider (defaultProps\<lparr>value_prop := Some long_value\<rparr>)))
     = long_value
   \<and> parseFloat_toFixed5 long_value = fl (12346 / 10 ^ 5)
   \<and> fl (12346 / 10 ^ 5) \<noteq> long_value"
proof -
  have "value_state (state (mounted_slider (defaultProps\<lparr>value_prop := Some long_value\<rparr>)))
     = long_value"
    unfolding value_componentWillMount by (simp add: constructed_def)
  with value_setValue long_value_rounded long_value_differs show ?thesis
    by blast
qed

subsection \<open>Drag updates\<close>

text \<open>
  C10. A drag update clamps the position to the track, \<open>[0, clientWidth]\<close>, and
  divides by the width; the value it stores is the aligned value, with no clamp after
  the alignment, and the percentage stored is the quotient of that value. With
  \<open>min = 0\<close>, \<open>max = 0.5\<close> and \<open>step = 0.3\<close>, a drag to the right end of the track
  (or beyond it) stores the value 0.6, above \<open>max\<close>, and the percentage 1.2.
\<close>

theorem drag_update_overshoots:
  "(\<forall>pos this. dragX pos this
       = updateWithChangeEvent
           (js_div (if js_lt pos (Fin 0) then Fin 0
                    else if js_lt (track_clientWidth this) pos then track_clientWidth this
                    else pos)
              (track_clientWidth this)) this)
   \<and> (\<forall>pc this. state (updateWithChangeEvent pc this)
       = (if js_seq (value_state (state this))
               (alignValue (props this) (percentToValue (props this) pc))
          then state this
          else (state this)
                 \<lparr>value_state := alignValue (props this) (percentToValue (props this) pc),
                  percent := fraction (props this)
                    (alignValue (props this) (percentToValue (props this) pc))\<rparr>))
   \<and> state (dragX (Fin 250) (mounted_slider overshoot_props))
       = initial_state\<lparr>value_state := fl (6 / 10), percent := fl (12 / 10)\<rparr>
   \<and> state (dragX (Fin 200) (mounted_slider overshoot_props))
       = initial_state\<lparr>value_state := fl (6 / 10), percent := fl (12 / 10)\<rparr>
   \<and> js_lt (max_prop overshoot_props) (fl (6 / 10))
   \<and> js_lt (Fin 1) (fl (12 / 10))
   \<and> ToString (fl (6 / 10)) = ''0.6''
   \<and> ToString (fl (12 / 10)) = ''1.2''"
proof -
  have a: "dragX pos this
       = updateWithChangeEvent
           (js_div (if js_lt pos (Fin 0) then Fin 0
                    else if js_lt (track_clientWidth this) pos then track_clientWidth this
                    else pos)
              (track_clientWidth this)) this" for pos this
    by (simp add: dragX_def Let_def)
  have b: "state (updateWithChangeEvent pc this)
       = (if js_seq (value_state (state this))
               (alignValue (props this) (percentToValue (props this) pc))
          then state this
          else (state this)
                 \<lparr>value_state := alignValue (props this) (percentToValue (props this) pc),
                  percent := fraction (props this)
                    (alignValue (props this) (percentToValue (props this) pc))\<rparr>)" for pc this
    by (simp add: state_updateWithChangeEvent Let_def)
  have c: "state (dragX (Fin 250) (mounted_slider overshoot_props))
       = initial_state\<lparr>value_state := fl (6 / 10), percent := fl (12 / 10)\<rparr>"
    unfolding overshoot_dragX by (rule overshoot_state)
  have d: "state (dragX (Fin 200) (mounted_slider overshoot_props))
       = initial_state\<lparr>value_state := fl (6 / 10), percent := fl (12 / 10)\<rparr>"
    unfolding overshoot_dragX_end by (rule overshoot_state)
  from a b c d overshoot_facts(4,5) ToString_6_10 ToString_12_10 show ?thesis
    by blast
qed

subsection \<open>The listeners on the document\<close>

lemma listeners_updateWithChangeEvent:
  "document_listeners (updateWithChangeEvent pc this) = document_listeners this"
  by (simp add: updateWithChangeEvent_def setPercent_def Let_def listeners_notify)

lemma dragging_updateWithChangeEvent:
  "dragging (state (updateWithChangeEvent pc this)) = dragging (state this)"
  by (simp add: updateWithChangeEvent_def setPercent_def Let_def state_notify)

lemma listeners_animation_frame:
  "document_listeners (animation_frame this) = document_listeners this"
  by (simp add: animation_frame_def onDragUpdate_def dragX_def Let_def
      listeners_updateWithChangeEvent split: list.splits)

lemma dragging_animation_frame:
  "dragging (state (animation_frame this)) = dragging (state this)"
  by (simp add: animation_frame_def onDragUpdate_def dragX_def Let_def
      dragging_updateWithChangeEvent split: list.splits)

lemma listeners_onHandleMouseDown:
  "document_listeners this = [] \<Longrightarrow>
   document_listeners (onHandleMouseDown this)
     = [(''mousemove'', DragHandler), (''mouseup'', DragEndHandler)]"
  by (simp add: onHandleMouseDown_def onDragStart_def addEventListener_def listeners_notify)

lemma listeners_onHandleTouchStart:
  "document_listeners this = [] \<Longrightarrow>
   document_listeners (onHandleTouchStart this)
     = [(''touchmove'', DragTouchHandler), (''touchup'', DragTouchEndHandler),
        (''touchend'', DragTouchEndHandler), (''touchcancel'', DragTouchEndHandler)]"
  by (simp add: onHandleTouchStart_def onDragStart_def addEventListener_def listeners_notify)

lemma dragging_onHandleMouseDown: "dragging (state (onHandleMouseDown this))"
  by (simp add: onHandleMouseDown_def onDragStart_def state_notify)

lemma dragging_onHandleTouchStart: "dragging (state (onHandleTouchStart this))"
  by (simp add: onHandleTouchStart_def onDragStart_def state_notify)

lemma mouse_move_keeps:
  assumes "document_listeners this = [(''mousemove'', DragHandler), (''mouseup'', DragEndHandler)]"
  shows "document_listeners (drag_move m this) = document_listeners this
       \<and> dragging (state (drag_move m this)) = dragging (state this)"
proof (cases m)
  case (DocumentMove type clientX)
  then show ?thesis
    using assms
    by (simp add: document_event_def call_listener_def dragHandler_def)
next
  case AnimationFrame
  then show ?thesis
    by (simp add: listeners_animation_frame dragging_animation_frame)
qed

lemma touch_move_keeps:
  assumes "document_listeners this
             = [(''touchmove'', DragTouchHandler), (''touchup'', DragTouchEndHandler),
                (''touchend'', DragTouchEndHandler), (''touchcancel'', DragTouchEndHandler)]"
  shows "document_listeners (drag_move m this) = document_listeners this
       \<and> dragging (state (drag_move m this)) = dragging (state this)"
proof (cases m)
  case (DocumentMove type clientX)
  then show ?thesis
    using assms
    by (simp add: document_event_def call_listener_def dragTouchHandler_def)
next
  case AnimationFrame
  then show ?thesis
    by (simp add: listeners_animation_frame dragging_animation_frame)
qed

lemma mouse_moves_keep:
  "document_listeners this = [(''mousemove'', DragHandler), (''mouseup'', DragEndHandler)] \<Longrightarrow>
   document_listeners (fold drag_move ms this) = document_listeners this
   \<and> dragging (state (fold drag_move ms this)) = dragging (state this)"
proof (induction ms arbitrary: this)
  case Nil
  then show ?case by simp
next
  case (Cons m ms)
  from mouse_move_keeps [OF Cons.prems, of m] Cons.prems
  have "document_listeners (drag_move m this)
          = [(''mousemove'', DragHandler), (''mouseup'', DragEndHandler)]"
    and "dragging (state (drag_move m this)) = dragging (state this)"
    by simp_all
  with Cons.IH [of "drag_move m this"] Cons.prems show ?case
    by simp
qed

lemma touch_moves_keep:
  "document_listeners this
     = [(''touchmove'', DragTouchHandler), (''touchup'', DragTouchEndHandler),
        (''touchend'', DragTouchEndHandler), (''touchcancel'', DragTouchEndHandler)] \<Longrightarrow>
   document_listeners (fold drag_move ms this) = document_listeners this
   \<and> dragging (state (fold drag_move ms this)) = dragging (state this)"
proof (induction ms arbitrary: this)
  case Nil
  then show ?case by simp
next
  case (Cons m ms)
  from touch_move_keeps [OF Cons.prems, of m] Cons.prems
  have "document_listeners (drag_move m this)
          = [(''touchmove'', DragTouchHandler), (''touchup'', DragTouchEndHandler),
             (''touchend'', DragTouchEndHandler), (''touchcancel'', DragTouchEndHandler)]"
    and "dragging (state (drag_move m this)) = dragging (state this)"
    by simp_all
  with Cons.IH [of "drag_move m this"] Cons.prems show ?case
    by simp
qed

lemma mouse_up_ends:
  "document_listeners this = [(''mousemove'', DragHandler), (''mouseup'', DragEndHandler)] \<Longrightarrow>
   document_listeners (document_event ''mouseup'' x this) = []
   \<and> \<not> dragging (state (document_event ''mouseup'' x this))"
  by (simp add: document_event_def call_listener_def dragEndHandler_def onDragStop_def
      removeEventListener_def listeners_notify state_notify)

lemma touch_end_ends:
  "document_listeners this
     = [(''touchmove'', DragTouchHandler), (''touchup'', DragTouchEndHandler),
        (''touchend'', DragTouchEndHandler), (''touchcancel'', DragTouchEndHandler)] \<Longrightarrow>
   type = ''touchend'' \<or> type = ''touchcancel'' \<or> type = ''touchup'' \<Longrightarrow>
   document_listeners (document_event type x this) = []
   \<and> \<not> dragging (state (document_event type x this))"
  by (elim disjE)
    (simp_all add: document_event_def call_listener_def dragTouchEndHandler_def onDragStop_def
      removeEventListener_def listeners_notify state_notify)

text \<open>The handlers of the track start a drag through those of the handle, after a drag
  update that leaves the listeners alone.\<close>

lemma track_handlers_call_handle:
  assumes "\<not> disabled (props this)" and "\<not> dragging (state this)"
  shows "handleMouseDown x this = onHandleMouseDown (dragX (js_sub x (track_left this)) this)"
    and "handleTouchStart x this = onHandleTouchStart (dragX (js_sub x (track_left this)) this)"
    and "document_listeners (dragX pos this) = document_listeners this"
  using assms
  by (simp_all add: handleMouseDown_def handleTouchStart_def dragX_def Let_def
      listeners_updateWithChangeEvent)

text \<open>
  C9 (as amended). A drag that starts while none of the slider's listeners is registered
  on the document, by the mouse or by a touch, registers its listeners and keeps them,
  and the dragging state, through any moves and animation frames. The first
  \<open>mouseup\<close> of a mouse drag, and the first \<open>touchend\<close>, \<open>touchcancel\<close> or
  \<open>touchup\<close> of a touch drag, removes every listener the drag registered and returns
  the state to idle. Unmounting is not among the exits: the component has no code for
  it.
\<close>

theorem drag_end_removes_listeners:
  assumes "document_listeners this = []"
  shows "dragging (state (fold drag_move ms (onHandleMouseDown this)))
       \<and> document_listeners (fold drag_move ms (onHandleMouseDown this))
           = [(''mousemove'', DragHandler), (''mouseup'', DragEndHandler)]
       \<and> document_listeners
           (document_event ''mouseup'' x (fold drag_move ms (onHandleMouseDown this))) = []
       \<and> \<not> dragging (state
           (document_event ''mouseup'' x (fold drag_move ms (onHandleMouseDown this))))
       \<and> dragging (state (fold drag_move ms (onHandleTouchStart this)))
       \<and> document_listeners (fold drag_move ms (onHandleTouchStart this))
           = [(''touchmove'', DragTouchHandler), (''touchup'', DragTouchEndHandler),
              (''touchend'', DragTouchEndHandler), (''touchcancel'', DragTouchEndHandler)]
       \<and> list_all
           (\<lambda>type.
              document_listeners
                (document_event type x (fold drag_move ms (onHandleTouchStart this))) = []
              \<and> \<not> dragging (state
                (document_event type x (fold drag_move ms (onHandleTouchStart this)))))
           [''touchend'', ''touchcancel'', ''touchup'']"
proof -
  let ?m = "fold drag_move ms (onHandleMouseDown this)"
  let ?t = "fold drag_move ms (onHandleTouchStart this)"
  have m: "document_listeners ?m = [(''mousemove'', DragHandler), (''mouseup'', DragEndHandler)]"
    and dm: "dragging (state ?m)"
    using mouse_moves_keep [OF listeners_onHandleMouseDown [OF assms], of ms]
    by (simp_all add: listeners_onHandleMouseDown [OF assms] dragging_onHandleMouseDown)
  have t: "document_listeners ?t
             = [(''touchmove'', DragTouchHandler), (''touchup'', DragTouchEndHandler),
                (''touchend'', DragTouchEndHandler), (''touchcancel'', DragTouchEndHandler)]"
    and dt: "dragging (state ?t)"
    using touch_moves_keep [OF listeners_onHandleTouchStart [OF assms], of ms]
    by (simp_all add: listeners_onHandleTouchStart [OF assms] dragging_onHandleTouchStart)
  from m dm t dt mouse_up_ends [OF m, of x] touch_end_ends [OF t, of _ x] show ?thesis
    by simp
qed

lemma listeners_mounted_slider: "document_listeners (mounted_slider p) = []"
  by (simp add: constructed_def componentWillMount_def Let_def)

theorem drag_end_removes_listeners_witness:
  "document_listeners (mounted_slider defaultProps) = []
   \<and> document_listeners
       (fold drag_move [DocumentMove ''mousemove'' (Fin 110), AnimationFrame]
          (onHandleMouseDown (mounted_slider defaultProps)))
     = [(''mousemove'', DragHandler), (''mouseup'', DragEndHandler)]
   \<and> document_listeners
       (document_event ''mouseup'' (Fin 110)
          (fold drag_move [DocumentMove ''mousemove'' (Fin 110), AnimationFrame]
             (onHandleMouseDown (mounted_slider defaultProps))))
     = []
   \<and> document_listeners
       (document_event ''touchcancel'' (Fin 110)
          (fold drag_move [DocumentMove ''touchmove'' (Fin 110), AnimationFrame]
             (onHandleTouchStart (mounted_slider defaultProps))))
     = []"
  using drag_end_removes_listeners [OF listeners_mounted_slider, of
      "[DocumentMove ''mousemove'' (Fin 110), AnimationFrame]" defaultProps "Fin 110"]
    drag_end_removes_listeners [OF listeners_mounted_slider, of
      "[DocumentMove ''touchmove'' (Fin 110), AnimationFrame]" defaultProps "Fin 110"]
    listeners_mounted_slider [of defaultProps]
  by simp

text \<open>
  A slider unmounted in the middle of a touch drag leaves its four listeners on the
  document. And where a mouse press on the handle falls into a touch drag, the
  \<open>mouseup\<close> returns the state to idle while the listeners of the touch drag stay
  registered.
\<close>

theorem unmount_keeps_listeners_counterexample:
  "document_listeners (unmount (onHandleTouchStart (mounted_slider defaultProps)))
     = [(''touchmove'', DragTouchHandler), (''touchup'', DragTouchEndHandler),
        (''touchend'', DragTouchEndHandler), (''touchcancel'', DragTouchEndHandler)]
   \<and> dragging (state (unmount (onHandleTouchStart (mounted_slider defaultProps))))
   \<and> \<not> mounted (unmount (onHandleTouchStart (mounted_slider defaultProps)))
   \<and> document_listeners
       (document_event ''mouseup'' (Fin 110)
          (onHandleMouseDown (onHandleTouchStart (mounted_slider defaultProps))))
     = [(''touchmove'', DragTouchHandler), (''touchup'', DragTouchEndHandler),
        (''touchend'', DragTouchEndHandler), (''touchcancel'', DragTouchEndHandler)]
   \<and> \<not> dragging (state
       (document_event ''mouseup'' (Fin 110)
          (onHandleMouseDown (onHandleTouchStart (mounted_slider defaultProps)))))"
  by (simp add: unmount_def onHandleTouchStart_def onHandleMouseDown_def onDragStart_def
      addEventListener_def notify_def constructed_def componentWillMount_def Let_def
      document_event_def call_listener_def dragEndHandler_def onDragStop_def
      removeEventListener_def)

end
